theory Spec2Isabelle
  imports Complex_Main "HOL-Library.AList"
begin

section \<open>JavaScript strings\<close>

text \<open>
  A JavaScript string is a sequence of UTF-16 code units.  The embedding keeps the code
  units as natural numbers, so that \<open>length\<close> is the \<^verbatim>\<open>.length\<close> of the source and
  characters outside ASCII (the rupee sign, the no-break space) are single elements.
  \<open>js\<close> turns an ASCII literal into such a string.
\<close>

type_synonym jsstring = "nat list"

definition js :: "string \<Rightarrow> jsstring" where
  "js s = map of_char s"

text \<open>\<^verbatim>\<open>s.startsWith(p)\<close>, \<^verbatim>\<open>s.endsWith(p)\<close> and \<^verbatim>\<open>s.includes(p)\<close> (\<open>includesStr\<close>).\<close>

fun startsWith :: "jsstring \<Rightarrow> jsstring \<Rightarrow> bool" where
  "startsWith s [] = True"
| "startsWith [] (p # ps) = False"
| "startsWith (c # cs) (p # ps) = (c = p \<and> startsWith cs ps)"

definition endsWith :: "jsstring \<Rightarrow> jsstring \<Rightarrow> bool" where
  "endsWith s p = startsWith (rev s) (rev p)"

fun includesStr :: "jsstring \<Rightarrow> jsstring \<Rightarrow> bool" where
  "includesStr [] p = (p = [])"
| "includesStr (c # cs) p = (startsWith (c # cs) p \<or> includesStr cs p)"

section \<open>Error classification and retry policy (utils/errorHandler.js)\<close>

text \<open>
  The error classes of the module; \<open>PlainError\<close> stands for every error object that is an
  instance of none of them (an axios error, a Node system error, a plain \<^verbatim>\<open>Error\<close>).
\<close>

datatype error_class =
  ValidationError | NetworkError | RateLimitError | ParsingError | DataValidationError
  | PlainError

text \<open>
  What \<^verbatim>\<open>categorizeError\<close> reads of an error object: its class, \<^verbatim>\<open>error.response.status\<close>
  (\<open>None\<close> when there is no response), \<^verbatim>\<open>error.code\<close> and \<^verbatim>\<open>error.message\<close>.
\<close>

record js_error =
  err_class :: error_class
  response_status :: "int option"
  err_code :: "jsstring option"
  message :: jsstring

datatype error_type =
  VALIDATION | NETWORK | RATE_LIMIT | PARSING | DATA_VALIDATION
  | NOT_FOUND | CLIENT_ERROR | SERVER_ERROR
  | TIMEOUT | DNS_ERROR | CONNECTION_REFUSED | CONNECTION_RESET
  | FILE_NOT_FOUND | PERMISSION_DENIED | IS_DIRECTORY
  | PDF_ERROR | HTML_ERROR | JSON_ERROR | URL_ERROR | UNKNOWN

text \<open>The status branch of \<^verbatim>\<open>categorizeError\<close>; \<open>None\<close> when no test applies and the code falls through.\<close>

definition categorize_status :: "int \<Rightarrow> error_type option" where
  "categorize_status status =
     (if status = 429 then Some RATE_LIMIT
      else if status = 404 then Some NOT_FOUND
      else if status \<ge> 400 \<and> status < 500 then Some CLIENT_ERROR
      else if status \<ge> 500 then Some SERVER_ERROR
      else None)"

definition categorize_code :: "js_error \<Rightarrow> error_type" where
  "categorize_code e =
     (if err_code e = Some (js ''ECONNABORTED'') then TIMEOUT
      else if err_code e = Some (js ''ENOTFOUND'') then DNS_ERROR
      else if err_code e = Some (js ''ECONNREFUSED'') then CONNECTION_REFUSED
      else if err_code e = Some (js ''ECONNRESET'') then CONNECTION_RESET
      else if err_code e = Some (js ''ETIMEDOUT'') then TIMEOUT
      else if err_code e = Some (js ''ENOENT'') then FILE_NOT_FOUND
      else if err_code e = Some (js ''EACCES'') then PERMISSION_DENIED
      else if err_code e = Some (js ''EISDIR'') then IS_DIRECTORY
      else if includesStr (message e) (js ''PDF'') then PDF_ERROR
      else if includesStr (message e) (js ''HTML'') then HTML_ERROR
      else if includesStr (message e) (js ''JSON'') then JSON_ERROR
      else if includesStr (message e) (js ''URL'') then URL_ERROR
      else UNKNOWN)"

definition categorizeError :: "js_error \<Rightarrow> error_type" where
  "categorizeError e =
     (case err_class e of
        ValidationError \<Rightarrow> VALIDATION
      | NetworkError \<Rightarrow> NETWORK
      | RateLimitError \<Rightarrow> RATE_LIMIT
      | ParsingError \<Rightarrow> PARSING
      | DataValidationError \<Rightarrow> DATA_VALIDATION
      | PlainError \<Rightarrow>
          (case response_status e of
             None \<Rightarrow> categorize_code e
           | Some status \<Rightarrow>
               (case categorize_status status of
                  Some t \<Rightarrow> t
                | None \<Rightarrow> categorize_code e)))"

definition noRetryTypes :: "error_type list" where
  "noRetryTypes =
     [VALIDATION, DATA_VALIDATION, FILE_NOT_FOUND, PERMISSION_DENIED, IS_DIRECTORY,
      CLIENT_ERROR, NOT_FOUND]"

definition alwaysRetryTypes :: "error_type list" where
  "alwaysRetryTypes =
     [NETWORK, TIMEOUT, CONNECTION_RESET, CONNECTION_REFUSED, DNS_ERROR, SERVER_ERROR]"

text \<open>\<^verbatim>\<open>shouldRetry(error, attempt, maxAttempts)\<close>, the tests in the order of the source.\<close>

definition shouldRetry :: "js_error \<Rightarrow> int \<Rightarrow> int \<Rightarrow> bool" where
  "shouldRetry e attempt maxAttempts =
     (if attempt \<ge> maxAttempts then False
      else let errorType = categorizeError e in
        if errorType \<in> set noRetryTypes then False
        else if errorType \<in> set alwaysRetryTypes then True
        else if errorType = RATE_LIMIT then attempt < maxAttempts + 2
        else False)"

text \<open>An HTTP failure as axios reports it: a plain error carrying the response status.\<close>

definition http_error :: "int \<Rightarrow> js_error" where
  "http_error status =
     \<lparr>err_class = PlainError, response_status = Some status, err_code = None,
      message = js ''Request failed''\<rparr>"

section \<open>JavaScript values and objects\<close>

text \<open>
  The values the aggregator handles.  A number is kept as an integer (only whether it is
  zero matters to the code below; \<^verbatim>\<open>NaN\<close> is not represented).  An object is the list of
  its own properties in insertion order, with distinct keys.
\<close>

datatype jsval =
  JUndefined | JNull | JBool bool | JNum int | JStr jsstring
  | JArr "jsval list" | JObj "(jsstring \<times> jsval) list"

type_synonym obj = "(jsstring \<times> jsval) list"

text \<open>\<^verbatim>\<open>o[k]\<close>: a missing property reads as \<^verbatim>\<open>undefined\<close>.\<close>

definition obj_get :: "obj \<Rightarrow> jsstring \<Rightarrow> jsval" where
  "obj_get ob k = (case map_of ob k of None \<Rightarrow> JUndefined | Some v \<Rightarrow> v)"

text \<open>\<^verbatim>\<open>o[k] = v\<close>: an existing property keeps its place, a new one is added last.\<close>

definition obj_set :: "obj \<Rightarrow> jsstring \<Rightarrow> jsval \<Rightarrow> obj" where
  "obj_set ob k v = AList.update k v ob"

definition obj_keys :: "obj \<Rightarrow> jsstring list" where
  "obj_keys ob = map fst ob"

text \<open>The conversion to boolean of \<^verbatim>\<open>if (v)\<close>, \<^verbatim>\<open>!v\<close> and \<^verbatim>\<open>a && b\<close>.\<close>

fun truthy :: "jsval \<Rightarrow> bool" where
  "truthy JUndefined = False"
| "truthy JNull = False"
| "truthy (JBool b) = b"
| "truthy (JNum n) = (n \<noteq> 0)"
| "truthy (JStr s) = (s \<noteq> [])"
| "truthy (JArr xs) = True"
| "truthy (JObj kvs) = True"

text \<open>
  The code units that \<^verbatim>\<open>String.prototype.trim\<close> strips and that \<^verbatim>\<open>\s\<close> matches: the
  white space and line terminators of ECMAScript.
\<close>

definition is_space :: "nat \<Rightarrow> bool" where
  "is_space c =
     (c = 9 \<or> c = 10 \<or> c = 11 \<or> c = 12 \<or> c = 13 \<or> c = 32 \<or> c = 160 \<or> c = 5760
      \<or> (8192 \<le> c \<and> c \<le> 8202) \<or> c = 8232 \<or> c = 8233 \<or> c = 8239 \<or> c = 8287
      \<or> c = 12288 \<or> c = 65279)"

definition trim :: "jsstring \<Rightarrow> jsstring" where
  "trim s = rev (dropWhile is_space (rev (dropWhile is_space s)))"

text \<open>The decimal name of an array index, as \<^verbatim>\<open>Object.keys\<close> of an array lists them.\<close>

fun digits :: "nat \<Rightarrow> jsstring" where
  "digits n = (if n < 10 then [48 + n] else digits (n div 10) @ [48 + n mod 10])"

declare digits.simps [simp del]

section \<open>The card schema (schema/cardSchema.js)\<close>

datatype schema_type = TString | TArray | TObject

text \<open>The fields of \<^verbatim>\<open>cardSchema\<close> with their \<^verbatim>\<open>type\<close>, in the order of the source.\<close>

definition cardSchema :: "(jsstring \<times> schema_type) list" where
  "cardSchema =
     [(js ''cardName'', TString), (js ''annualFee'', TString), (js ''joiningFee'', TString),
      (js ''rewards'', TArray), (js ''benefits'', TArray),
      (js ''eligibilityCriteria'', TArray), (js ''documentsRequired'', TArray),
      (js ''interestRate'', TString), (js ''otherCharges'', TArray),
      (js ''links'', TObject), (js ''cardType'', TString), (js ''creditLimit'', TString),
      (js ''welcomeBenefits'', TArray), (js ''milestoneBenefits'', TArray),
      (js ''loungeAccess'', TObject), (js ''insurance'', TObject),
      (js ''redemptionOptions'', TArray), (js ''foreignCurrencyMarkup'', TString),
      (js ''contactInfo'', TObject)]"

definition empty_value :: "schema_type \<Rightarrow> jsval" where
  "empty_value t = (case t of TArray \<Rightarrow> JArr [] | TObject \<Rightarrow> JObj [] | TString \<Rightarrow> JNull)"

definition createEmptyCardData :: obj where
  "createEmptyCardData = map (\<lambda>(field, t). (field, empty_value t)) cardSchema"

section \<open>The aggregator (CardDataAggregator)\<close>

text \<open>
  An exception ends the call; the embedding returns it in place of the new state.
  \<open>TypeError\<close> is the error of calling a method a value does not have
  (\<^verbatim>\<open>item.trim()\<close> on a number, \<^verbatim>\<open>push\<close> on a string).
\<close>

datatype js_exception = TypeError

record aggregator =
  cardData :: obj
  sources :: "(obj \<times> jsstring \<times> jsstring) list"

definition newAggregator :: aggregator where
  "newAggregator = \<lparr>cardData = createEmptyCardData, sources = []\<rparr>"

definition stringFields :: "jsstring list" where
  "stringFields =
     [js ''cardName'', js ''annualFee'', js ''joiningFee'', js ''interestRate'',
      js ''foreignCurrencyMarkup'']"

definition arrayFields :: "jsstring list" where
  "arrayFields =
     [js ''rewards'', js ''benefits'', js ''eligibilityCriteria'', js ''documentsRequired'',
      js ''otherCharges'', js ''welcomeBenefits'', js ''milestoneBenefits'',
      js ''redemptionOptions'']"

text \<open>The body of the \<^verbatim>\<open>stringFields.forEach\<close> of \<^verbatim>\<open>mergeData\<close>, for one field.\<close>

definition merge_string_field :: "obj \<Rightarrow> obj \<Rightarrow> jsstring \<Rightarrow> obj" where
  "merge_string_field sourceData cdata field =
     (let v = obj_get sourceData field in
      if truthy v \<and> v \<noteq> JNull \<and> v \<noteq> JStr [] then
        (if \<not> truthy (obj_get cdata field) \<or> obj_get cdata field = JNull
         then obj_set cdata field v else cdata)
      else cdata)"

text \<open>
  One round of the inner \<^verbatim>\<open>forEach(item => ...)\<close>: \<open>cur\<close> is the value of the record's field,
  which the caller has made truthy.  \<^verbatim>\<open>includes\<close> is the array's or, on a string, the
  substring test; \<^verbatim>\<open>push\<close> exists on arrays only.
\<close>

definition push_item :: "jsval \<Rightarrow> jsval \<Rightarrow> js_exception + jsval" where
  "push_item cur item =
     (if \<not> truthy item then Inr cur
      else case item of
        JStr s \<Rightarrow>
          (let t = trim s in
           if t = [] then Inr cur
           else case cur of
             JArr xs \<Rightarrow> if JStr t \<in> set xs then Inr cur else Inr (JArr (xs @ [JStr t]))
           | JStr c \<Rightarrow> if includesStr c t then Inr cur else Inl TypeError
           | _ \<Rightarrow> Inl TypeError)
      | _ \<Rightarrow> Inl TypeError)"

fun push_items :: "jsval \<Rightarrow> jsval list \<Rightarrow> js_exception + jsval" where
  "push_items cur [] = Inr cur"
| "push_items cur (item # items) =
     (case push_item cur item of Inl e \<Rightarrow> Inl e | Inr cur' \<Rightarrow> push_items cur' items)"

text \<open>The body of the \<^verbatim>\<open>arrayFields.forEach\<close> of \<^verbatim>\<open>mergeData\<close>, for one field.\<close>

definition merge_array_field :: "obj \<Rightarrow> obj \<Rightarrow> jsstring \<Rightarrow> js_exception + obj" where
  "merge_array_field sourceData cdata field =
     (case obj_get sourceData field of
        JArr items \<Rightarrow>
          if length items > 0 then
            (let cdata1 = (if \<not> truthy (obj_get cdata field)
                          then obj_set cdata field (JArr []) else cdata)
             in case push_items (obj_get cdata1 field) items of
                  Inl e \<Rightarrow> Inl e
                | Inr cur \<Rightarrow> Inr (obj_set cdata1 field cur))
          else Inr cdata
      | _ \<Rightarrow> Inr cdata)"

fun merge_array_fields :: "obj \<Rightarrow> obj \<Rightarrow> jsstring list \<Rightarrow> js_exception + obj" where
  "merge_array_fields sourceData cdata [] = Inr cdata"
| "merge_array_fields sourceData cdata (field # fs) =
     (case merge_array_field sourceData cdata field of
        Inl e \<Rightarrow> Inl e
      | Inr cdata' \<Rightarrow> merge_array_fields sourceData cdata' fs)"

text \<open>
  One key of \<^verbatim>\<open>mergeObjectField\<close>: \<open>sub\<close> is the nested object \<^verbatim>\<open>this.cardData[fieldName]\<close>.
\<close>

definition merge_object_key :: "obj \<Rightarrow> jsstring \<times> jsval \<Rightarrow> js_exception + obj" where
  "merge_object_key sub kv =
     (case kv of (key, v) \<Rightarrow>
        if v \<noteq> JNull \<and> v \<noteq> JUndefined \<and> v \<noteq> JStr [] then
          (case v of
             JArr items \<Rightarrow>
               (let sub1 = (if \<not> truthy (obj_get sub key)
                            then obj_set sub key (JArr []) else sub)
                in case push_items (obj_get sub1 key) items of
                     Inl e \<Rightarrow> Inl e
                   | Inr cur \<Rightarrow> Inr (obj_set sub1 key cur))
           | _ \<Rightarrow>
               if \<not> truthy (obj_get sub key) \<or> obj_get sub key = JNull
               then Inr (obj_set sub key v) else Inr sub)
        else Inr sub)"

fun merge_object_keys :: "obj \<Rightarrow> (jsstring \<times> jsval) list \<Rightarrow> js_exception + obj" where
  "merge_object_keys sub [] = Inr sub"
| "merge_object_keys sub (kv # kvs) =
     (case merge_object_key sub kv of
        Inl e \<Rightarrow> Inl e
      | Inr sub' \<Rightarrow> merge_object_keys sub' kvs)"

text \<open>
  \<^verbatim>\<open>mergeObjectField(fieldName, sourceData)\<close>.  An array passes the \<^verbatim>\<open>typeof\<close> test and is
  walked by its indices.  The record's field is an object whenever the record was made by
  \<^verbatim>\<open>createEmptyCardData\<close> and changed by \<^verbatim>\<open>mergeData\<close> only; a record that holds another truthy
  value there (on which the property writes of the source fail or are lost) is answered
  with the exception.
\<close>

definition mergeObjectField :: "jsstring \<Rightarrow> jsval \<Rightarrow> obj \<Rightarrow> js_exception + obj" where
  "mergeObjectField fieldName sourceData cdata =
     (let entries =
        (case sourceData of
           JObj kvs \<Rightarrow> Some kvs
         | JArr xs \<Rightarrow> Some (zip (map digits [0..<length xs]) xs)
         | _ \<Rightarrow> None)
      in case entries of
        None \<Rightarrow> Inr cdata
      | Some kvs \<Rightarrow>
          (let cdata1 = (if \<not> truthy (obj_get cdata fieldName)
                        then obj_set cdata fieldName (JObj []) else cdata)
           in case obj_get cdata1 fieldName of
                JObj sub \<Rightarrow>
                  (case merge_object_keys sub kvs of
                     Inl e \<Rightarrow> Inl e
                   | Inr sub' \<Rightarrow> Inr (obj_set cdata1 fieldName (JObj sub')))
              | _ \<Rightarrow> Inl TypeError))"

definition objectFields :: "jsstring list" where
  "objectFields = [js ''links'', js ''loungeAccess'', js ''insurance'', js ''contactInfo'']"

fun merge_object_fields :: "obj \<Rightarrow> obj \<Rightarrow> jsstring list \<Rightarrow> js_exception + obj" where
  "merge_object_fields sourceData cdata [] = Inr cdata"
| "merge_object_fields sourceData cdata (field # fs) =
     (case mergeObjectField field (obj_get sourceData field) cdata of
        Inl e \<Rightarrow> Inl e
      | Inr cdata' \<Rightarrow> merge_object_fields sourceData cdata' fs)"

definition mergeData :: "obj \<Rightarrow> obj \<Rightarrow> js_exception + obj" where
  "mergeData sourceData cdata =
     (case merge_array_fields sourceData
             (foldl (merge_string_field sourceData) cdata stringFields) arrayFields of
        Inl e \<Rightarrow> Inl e
      | Inr cdata' \<Rightarrow> merge_object_fields sourceData cdata' objectFields)"

definition addSourceData ::
  "obj \<Rightarrow> jsstring \<Rightarrow> jsstring \<Rightarrow> aggregator \<Rightarrow> js_exception + aggregator" where
  "addSourceData data sourceType url a =
     (case mergeData data (cardData a) of
        Inl e \<Rightarrow> Inl e
      | Inr cdata' \<Rightarrow> Inr \<lparr>cardData = cdata', sources = sources a @ [(data, sourceType, url)]\<rparr>)"

text \<open>A run of \<^verbatim>\<open>addSourceData\<close> calls, in arrival order, that stops at the first exception.\<close>

fun addSources ::
  "aggregator \<Rightarrow> (obj \<times> jsstring \<times> jsstring) list \<Rightarrow> js_exception + aggregator" where
  "addSources a [] = Inr a"
| "addSources a ((data, sourceType, url) # rest) =
     (case addSourceData data sourceType url a of
        Inl e \<Rightarrow> Inl e
      | Inr a' \<Rightarrow> addSources a' rest)"

definition getCardData :: "aggregator \<Rightarrow> obj" where
  "getCardData a = cardData a"

text \<open>
  What a caller reads of the merged record for one field after a run of
  \<^verbatim>\<open>addSourceData\<close> calls on a new aggregator.
\<close>

definition merged_field ::
  "jsstring \<Rightarrow> (obj \<times> jsstring \<times> jsstring) list \<Rightarrow> js_exception + jsval" where
  "merged_field field srcs =
     (case addSources newAggregator srcs of
        Inl e \<Rightarrow> Inl e
      | Inr a \<Rightarrow> Inr (obj_get (getCardData a) field))"



text \<open>
  The words of the specification for a collection field: the entries of all sources in
  arrival order, each in its trimmed string form (blank entries contribute nothing), and
  the duplicate-free list of them in first-seen order.
\<close>

definition entries :: "jsstring \<Rightarrow> (obj \<times> jsstring \<times> jsstring) list \<Rightarrow> jsval list" where
  "entries field srcs =
     concat (map (\<lambda>s. case obj_get (fst s) field of JArr items \<Rightarrow> items | _ \<Rightarrow> []) srcs)"

definition trimmed_form :: "jsval \<Rightarrow> jsstring option" where
  "trimmed_form item =
     (case item of JStr s \<Rightarrow> if trim s = [] then None else Some (trim s) | _ \<Rightarrow> None)"

fun first_seen :: "'a list \<Rightarrow> 'a list" where
  "first_seen [] = []"
| "first_seen (x # xs) = x # first_seen (removeAll x xs)"

section \<open>JavaScript numbers\<close>

text \<open>
  A JavaScript number is an IEEE 754 binary64 value.  \<open>fl64\<close> rounds a rational to the
  nearest binary64 value, ties to even, in the normal range (no overflow, no subnormal
  results: the quotients and products below lie between \<open>1/2\<^sup>5\<^sup>3\<close> and \<open>100\<close>).  \<open>binexp x\<close> is
  the binary exponent of a positive \<open>x\<close>: \<open>2 ^ binexp x \<le> x < 2 ^ (binexp x + 1)\<close>.
\<close>

fun ilog2 :: "nat \<Rightarrow> nat" where
  "ilog2 n = (if n < 2 then 0 else Suc (ilog2 (n div 2)))"

declare ilog2.simps [simp del]

definition binexp :: "rat \<Rightarrow> int" where
  "binexp x =
     (if 1 \<le> x then int (ilog2 (nat \<lfloor>x\<rfloor>))
      else (let m = nat \<lceil>1 / x\<rceil> in if m \<le> 1 then 0 else - int (Suc (ilog2 (m - 1)))))"

definition pow2 :: "int \<Rightarrow> rat" where
  "pow2 e = (if 0 \<le> e then 2 ^ nat e else 1 / 2 ^ nat (- e))"

definition round_half_even :: "rat \<Rightarrow> int" where
  "round_half_even m =
     (let f = \<lfloor>m\<rfloor>; r = m - of_int f in
      if r < 1 / 2 then f else if 1 / 2 < r then f + 1 else if even f then f else f + 1)"

definition fl64 :: "rat \<Rightarrow> rat" where
  "fl64 x =
     (if x = 0 then 0
      else let a = \<bar>x\<bar>; u = pow2 (binexp a - 52)
           in sgn x * of_int (round_half_even (a / u)) * u)"

datatype jsnum = NaN | Infinity | Num rat

text \<open>\<^verbatim>\<open>a / b\<close> for two counters (non-negative integers below \<open>2\<^sup>5\<^sup>3\<close>).\<close>

definition js_div :: "nat \<Rightarrow> nat \<Rightarrow> jsnum" where
  "js_div a b =
     (if b = 0 then (if a = 0 then NaN else Infinity)
      else Num (fl64 (of_nat a / of_nat b)))"

text \<open>\<^verbatim>\<open>x * 100\<close>.\<close>

definition js_times_100 :: "jsnum \<Rightarrow> jsnum" where
  "js_times_100 x =
     (case x of NaN \<Rightarrow> NaN | Infinity \<Rightarrow> Infinity | Num q \<Rightarrow> Num (fl64 (q * 100)))"

section \<open>The completeness report (CardDataAggregator.getCompletenessReport)\<close>

record completeness_report =
  totalFields :: nat
  filledFields :: nat
  emptyFields :: nat
  fieldDetails :: "(jsstring \<times> jsstring) list"
  completenessPercentage :: jsnum

text \<open>The test of the loop body: \<^verbatim>\<open>typeof value === 'object'\<close> holds of the objects that are left.\<close>

definition isFilled :: "jsval \<Rightarrow> bool" where
  "isFilled v =
     (if v \<noteq> JNull \<and> v \<noteq> JUndefined \<and> v \<noteq> JStr [] then
        (case v of
           JArr xs \<Rightarrow> length xs > 0
         | JObj kvs \<Rightarrow> length (obj_keys kvs) > 0
         | _ \<Rightarrow> True)
      else False)"

definition report_field :: "obj \<Rightarrow> completeness_report \<Rightarrow> jsstring \<Rightarrow> completeness_report" where
  "report_field cdata r field =
     (let r1 = r\<lparr>totalFields := totalFields r + 1\<rparr> in
      if isFilled (obj_get cdata field)
      then r1\<lparr>filledFields := filledFields r1 + 1,
              fieldDetails := AList.update field (js ''filled'') (fieldDetails r1)\<rparr>
      else r1\<lparr>emptyFields := emptyFields r1 + 1,
              fieldDetails := AList.update field (js ''empty'') (fieldDetails r1)\<rparr>)"

text \<open>
  \<^verbatim>\<open>getCompletenessReport()\<close>.  The method is modelled with the aggregator it leaves behind,
  so that its effect on the aggregator is part of the result.
\<close>

definition getCompletenessReport :: "aggregator \<Rightarrow> completeness_report \<times> aggregator" where
  "getCompletenessReport a =
     (let r0 = \<lparr>totalFields = 0, filledFields = 0, emptyFields = 0, fieldDetails = [],
                 completenessPercentage = NaN\<rparr>;
          r = foldl (report_field (cardData a)) r0 (obj_keys (cardData a))
      in (r\<lparr>completenessPercentage :=
               js_times_100 (js_div (filledFields r) (totalFields r))\<rparr>, a))"

section \<open>The relevance score (HTMLCrawler.calculateContentRelevance)\<close>

text \<open>
  A regular expression with the flag \<^verbatim>\<open>i\<close> compares code units after \<open>Canonicalize\<close>, which
  maps \<open>a\<close> to \<open>z\<close> to upper case and, for the ASCII patterns of this program, changes the
  outcome for no other code unit.
\<close>

definition canonicalize :: "nat \<Rightarrow> nat" where
  "canonicalize c = (if 97 \<le> c \<and> c \<le> 122 then c - 32 else c)"

definition startsWith_ci :: "jsstring \<Rightarrow> jsstring \<Rightarrow> bool" where
  "startsWith_ci s p = startsWith (map canonicalize s) (map canonicalize p)"

text \<open>
  \<^verbatim>\<open>(text.match(new RegExp(keyword, 'gi')) || []).length\<close> for a keyword of letters and
  spaces: the matches are found from left to right and do not overlap.  An empty pattern
  matches before every code unit and at the end.
\<close>

fun count_matches :: "jsstring \<Rightarrow> jsstring \<Rightarrow> nat" where
  "count_matches keyword [] = (if keyword = [] then 1 else 0)"
| "count_matches keyword (c # cs) =
     (if keyword = [] then Suc (count_matches keyword cs)
      else if startsWith_ci (c # cs) keyword
      then Suc (count_matches keyword (drop (length keyword - 1) cs))
      else count_matches keyword cs)"

definition highPriorityKeywords :: "jsstring list" where
  "highPriorityKeywords =
     [js ''regalia gold'', js ''credit card'', js ''fees'', js ''charges'', js ''benefits'',
      js ''rewards'', js ''cashback'', js ''points'', js ''eligibility'', js ''terms'',
      js ''conditions'']"

definition mediumPriorityKeywords :: "jsstring list" where
  "mediumPriorityKeywords =
     [js ''insurance'', js ''coverage'', js ''lounge'', js ''milestone'', js ''features'',
      js ''offers'', js ''annual'', js ''joining'', js ''waiver'']"

definition irrelevantKeywords :: "jsstring list" where
  "irrelevantKeywords =
     [js ''money transfer'', js ''upi'', js ''donation'', js ''remittance'', js ''forex'',
      js ''bill pay'', js ''recharge'', js ''fastag'', js ''demat'', js ''mutual fund'']"

text \<open>
  The score before the final \<^verbatim>\<open>Math.max\<close>, statement by statement.  \<open>toLowerCase\<close> is the
  platform's \<^verbatim>\<open>String.prototype.toLowerCase\<close>, a parameter of the model.
\<close>

definition raw_relevance :: "(jsstring \<Rightarrow> jsstring) \<Rightarrow> jsstring \<Rightarrow> jsstring \<Rightarrow> int" where
  "raw_relevance toLowerCase fullText url =
     (let text = toLowerCase fullText;
          urlLower = toLowerCase url;
          s1 = (if includesStr urlLower (js ''credit'') \<and> includesStr urlLower (js ''card'')
                then 5 else 0);
          s2 = s1 + (if includesStr urlLower (js ''regalia'') then 8 else 0);
          s3 = s2 + (if includesStr urlLower (js ''gold'') then 3 else 0);
          s4 = foldl (\<lambda>score keyword. score + int (count_matches keyword text) * 2)
                 s3 highPriorityKeywords;
          s5 = foldl (\<lambda>score keyword. score + int (count_matches keyword text) * 1)
                 s4 mediumPriorityKeywords;
          s6 = foldl (\<lambda>score keyword. if includesStr text keyword then score - 3 else score)
                 s5 irrelevantKeywords
      in if includesStr text (js ''.pdf'') \<or> includesStr text (js ''download'')
         then s6 + 2 else s6)"

definition calculateContentRelevance ::
  "(jsstring \<Rightarrow> jsstring) \<Rightarrow> jsstring \<Rightarrow> jsstring \<Rightarrow> int" where
  "calculateContentRelevance toLowerCase fullText url =
     max 0 (raw_relevance toLowerCase fullText url)"

text \<open>The gate of \<^verbatim>\<open>crawlPage\<close>: a page whose score is below 3 is answered with \<^verbatim>\<open>null\<close>.\<close>

definition rejected_by_relevance ::
  "(jsstring \<Rightarrow> jsstring) \<Rightarrow> jsstring \<Rightarrow> jsstring \<Rightarrow> bool" where
  "rejected_by_relevance toLowerCase fullText url =
     (calculateContentRelevance toLowerCase fullText url < 3)"

text \<open>\<^verbatim>\<open>toLowerCase\<close> on ASCII text.\<close>

definition ascii_toLowerCase :: "jsstring \<Rightarrow> jsstring" where
  "ascii_toLowerCase s = map (\<lambda>c. if 65 \<le> c \<and> c \<le> 90 then c + 32 else c) s"

section \<open>Concrete inputs of the examples\<close>





definition lounge_A :: "obj \<times> jsstring \<times> jsstring" where
  "lounge_A = ([(js ''benefits'', JArr [JStr (js ''Lounge Access'')])], js ''html'', js ''A'')"

definition lounge_B :: "obj \<times> jsstring \<times> jsstring" where
  "lounge_B = ([(js ''benefits'', JArr [JStr (js ''lounge access '')])], js ''pdf'', js ''B'')"

definition lounge_C :: "obj \<times> jsstring \<times> jsstring" where
  "lounge_C =
     ([(js ''benefits'',
        JArr [JStr (js ''Lounge Access ''), JStr (js ''  ''), JStr (js ''Priority Pass'')])],
      js ''pdf'', js ''C'')"

text \<open>A record of twenty fields, eleven of them filled.\<close>

definition record_20_11 :: obj where
  "record_20_11 =
     map (\<lambda>k. (js k, JStr (js ''x'')))
       [''f01'', ''f02'', ''f03'', ''f04'', ''f05'', ''f06'', ''f07'', ''f08'', ''f09'',
        ''f10'', ''f11'']
     @ map (\<lambda>k. (js k, JNull))
       [''f12'', ''f13'', ''f14'', ''f15'', ''f16'', ''f17'', ''f18'', ''f19'', ''f20'']"

definition aggregator_20_11 :: aggregator where
  "aggregator_20_11 = \<lparr>cardData = record_20_11, sources = []\<rparr>"

section \<open>The rate limiter (utils/rateLimiter.js)\<close>

text \<open>
  Times are milliseconds, token counts are numbers; both are kept as exact rationals.
  (In the runs examined below every value that arises is a small multiple of \<open>1/2\<close>, which
  binary64 arithmetic computes exactly.)  \<^verbatim>\<open>Date.now()\<close> is a parameter: the clock of the
  model.
\<close>

record TokenBucket =
  tokensPerInterval :: rat
  interval :: rat
  maxBurst :: rat
  tokens :: rat
  lastFill :: rat

text \<open>The constructor; \<^verbatim>\<open>maxBurst || tokensPerInterval\<close> replaces a missing or zero burst.\<close>

definition newTokenBucket :: "rat \<Rightarrow> rat \<Rightarrow> rat option \<Rightarrow> rat \<Rightarrow> TokenBucket" where
  "newTokenBucket tpi itv burst now =
     (let mb = (case burst of None \<Rightarrow> tpi | Some b \<Rightarrow> if b = 0 then tpi else b)
      in \<lparr>tokensPerInterval = tpi, interval = itv, maxBurst = mb, tokens = mb,
          lastFill = now\<rparr>)"

text \<open>
  \<^verbatim>\<open>fillBucket()\<close> at clock \<open>now\<close>.  The interval is not zero (the limiter makes every bucket
  with 1000).
\<close>

definition fillBucket :: "rat \<Rightarrow> TokenBucket \<Rightarrow> TokenBucket" where
  "fillBucket now b =
     (let elapsed = (now - lastFill b) / 1000
      in b\<lparr>tokens := min (maxBurst b)
                         (tokens b + elapsed * tokensPerInterval b / (interval b / 1000)),
            lastFill := now\<rparr>)"

definition tryTake :: "rat \<Rightarrow> TokenBucket \<Rightarrow> bool \<times> TokenBucket" where
  "tryTake now b =
     (let b1 = fillBucket now b
      in if tokens b1 \<ge> 1 then (True, b1\<lparr>tokens := tokens b1 - 1\<rparr>) else (False, b1))"

text \<open>
  \<^verbatim>\<open>getWaitTime()\<close>, already capped as its only caller does with
  \<^verbatim>\<open>Math.min(limiter.getWaitTime(), maxDelayMs)\<close>: a rate of zero makes the quotient
  \<^verbatim>\<open>Infinity\<close>, and the minimum is then the cap.
\<close>

definition getWaitTime_capped :: "rat \<Rightarrow> rat \<Rightarrow> TokenBucket \<Rightarrow> rat \<times> TokenBucket" where
  "getWaitTime_capped cap now b =
     (let b1 = fillBucket now b
      in if tokens b1 \<ge> 1 then (min 0 cap, b1)
         else if tokensPerInterval b1 = 0 then (cap, b1)
         else (min ((1 - tokens b1) * interval b1 / tokensPerInterval b1) cap, b1))"

text \<open>
  The options object of the caller (a property that is not given is \<open>None\<close>) and the options
  the constructor keeps: \<^verbatim>\<open>{requestsPerSecond: options.requestsPerSecond || 2, ..., ...options}\<close>.
  The spread comes last, so a property the caller gives is kept as given, zero included.
\<close>

record caller_options =
  given_requestsPerSecond :: "rat option"
  given_burstSize :: "rat option"
  given_minDelayMs :: "rat option"
  given_maxDelayMs :: "rat option"

record limiter_options =
  requestsPerSecond :: rat
  burstSize :: rat
  minDelayMs :: rat
  maxDelayMs :: rat

definition make_options :: "caller_options \<Rightarrow> limiter_options" where
  "make_options c =
     \<lparr>requestsPerSecond = (case given_requestsPerSecond c of None \<Rightarrow> 2 | Some v \<Rightarrow> v),
      burstSize = (case given_burstSize c of None \<Rightarrow> 5 | Some v \<Rightarrow> v),
      minDelayMs = (case given_minDelayMs c of None \<Rightarrow> 500 | Some v \<Rightarrow> v),
      maxDelayMs = (case given_maxDelayMs c of None \<Rightarrow> 10000 | Some v \<Rightarrow> v)\<rparr>"

text \<open>The limiter together with the clock.\<close>

record DomainRateLimiter =
  options :: limiter_options
  limiters :: "jsstring \<rightharpoonup> TokenBucket"
  lastRequestTime :: "jsstring \<rightharpoonup> rat"
  clock :: rat

definition newDomainRateLimiter :: "caller_options \<Rightarrow> rat \<Rightarrow> DomainRateLimiter" where
  "newDomainRateLimiter c now =
     \<lparr>options = make_options c, limiters = Map.empty, lastRequestTime = Map.empty,
      clock = now\<rparr>"

definition getLimiter :: "jsstring \<Rightarrow> DomainRateLimiter \<Rightarrow> TokenBucket \<times> DomainRateLimiter" where
  "getLimiter domain s =
     (case limiters s domain of
        Some b \<Rightarrow> (b, s)
      | None \<Rightarrow>
          (let b = newTokenBucket (requestsPerSecond (options s)) 1000
                     (Some (burstSize (options s))) (clock s)
           in (b, s\<lparr>limiters := (limiters s)(domain \<mapsto> b)\<rparr>)))"

text \<open>
  \<^verbatim>\<open>await this.delay(ms)\<close>: the caller resumes when the timer fires.  Node sets a delay
  below 1 (or above \<open>2\<^sup>3\<^sup>1 - 1\<close>) to 1 and truncates the others to an integer; the model's
  timer fires exactly then, and nothing else runs in between.
\<close>

definition timer_ms :: "rat \<Rightarrow> rat" where
  "timer_ms ms = (if ms < 1 \<or> ms > 2147483647 then 1 else of_int \<lfloor>ms\<rfloor>)"

definition delay :: "rat \<Rightarrow> DomainRateLimiter \<Rightarrow> DomainRateLimiter" where
  "delay ms s = s\<lparr>clock := clock s + timer_ms ms\<rparr>"

text \<open>
  The loop \<^verbatim>\<open>while (!limiter.tryTake()) { ...; await this.delay(waitTime) }\<close> on the bucket of
  the domain.  It need not end (a rate of zero never refills the bucket), so it runs on
  fuel: \<open>None\<close> means the fuel did not suffice.
\<close>

fun take_loop :: "nat \<Rightarrow> jsstring \<Rightarrow> TokenBucket \<Rightarrow> DomainRateLimiter \<Rightarrow> DomainRateLimiter option" where
  "take_loop 0 domain b s = None"
| "take_loop (Suc fuel) domain b s =
     (case tryTake (clock s) b of
        (True, b1) \<Rightarrow> Some (s\<lparr>limiters := (limiters s)(domain \<mapsto> b1)\<rparr>)
      | (False, b1) \<Rightarrow>
          (case getWaitTime_capped (maxDelayMs (options s)) (clock s) b1 of
             (waitTime, b2) \<Rightarrow>
               take_loop fuel domain b2
                 (delay waitTime (s\<lparr>limiters := (limiters s)(domain \<mapsto> b2)\<rparr>))))"

definition waitForRateLimit :: "nat \<Rightarrow> jsstring \<Rightarrow> DomainRateLimiter \<Rightarrow> DomainRateLimiter option" where
  "waitForRateLimit fuel domain s =
     (case getLimiter domain s of
        (limiter, s1) \<Rightarrow>
          (let lastRequest = (case lastRequestTime s1 domain of None \<Rightarrow> 0 | Some t \<Rightarrow> t);
               now = clock s1;
               timeSinceLastRequest = now - lastRequest;
               s2 = (if timeSinceLastRequest < minDelayMs (options s1)
                     then delay (minDelayMs (options s1) - timeSinceLastRequest) s1
                     else s1)
           in case take_loop fuel domain limiter s2 of
                None \<Rightarrow> None
              | Some s3 \<Rightarrow>
                  Some (s3\<lparr>lastRequestTime := (lastRequestTime s3)(domain \<mapsto> clock s3)\<rparr>)))"

text \<open>
  \<open>n\<close> calls of \<^verbatim>\<open>waitForRateLimit\<close>, each issued the moment the one before it completes,
  with the clock at which each completes.
\<close>

fun acquire_times :: "nat \<Rightarrow> jsstring \<Rightarrow> nat \<Rightarrow> DomainRateLimiter \<Rightarrow> rat list option" where
  "acquire_times fuel domain 0 s = Some []"
| "acquire_times fuel domain (Suc n) s =
     (case waitForRateLimit fuel domain s of
        None \<Rightarrow> None
      | Some s1 \<Rightarrow>
          (case acquire_times fuel domain n s1 of
             None \<Rightarrow> None
           | Some ts \<Rightarrow> Some (clock s1 # ts)))"

text \<open>
  The limiter of the claim: rate 2 per second and burst 5 given, the rest left to the
  defaults; and the same with the minimum spacing set to zero.
\<close>

definition rate2_burst5 :: caller_options where
  "rate2_burst5 =
     \<lparr>given_requestsPerSecond = Some 2, given_burstSize = Some 5, given_minDelayMs = None,
      given_maxDelayMs = None\<rparr>"

definition rate2_burst5_no_spacing :: caller_options where
  "rate2_burst5_no_spacing = rate2_burst5\<lparr>given_minDelayMs := Some 0\<rparr>"

section \<open>Regular expressions of the program, as string tests\<close>

abbreviation slash :: nat where "slash \<equiv> 47"
abbreviation colon :: nat where "colon \<equiv> 58"

text \<open>The line terminators, which \<^verbatim>\<open>.\<close> does not match.\<close>

definition is_line_terminator :: "nat \<Rightarrow> bool" where
  "is_line_terminator c = (c = 10 \<or> c = 13 \<or> c = 8232 \<or> c = 8233)"

text \<open>\<^verbatim>\<open>/lit/i.test(s)\<close> for a literal of ASCII characters.\<close>

definition includes_ci :: "jsstring \<Rightarrow> jsstring \<Rightarrow> bool" where
  "includes_ci s p = includesStr (map canonicalize s) (map canonicalize p)"

text \<open>
  \<^verbatim>\<open>/a.*b/.test(s)\<close> for literals \<open>a\<close> and \<open>b\<close>: somewhere \<open>a\<close>, and \<open>b\<close> after it on the same
  line.  \<^verbatim>\<open>/a(?!.*b)/.test(s)\<close>: somewhere \<open>a\<close> with no \<open>b\<close> after it on the same line.
\<close>

fun matches_seq :: "jsstring \<Rightarrow> jsstring \<Rightarrow> jsstring \<Rightarrow> bool" where
  "matches_seq a b [] = (a = [] \<and> b = [])"
| "matches_seq a b (c # cs) =
     ((startsWith (c # cs) a
        \<and> includesStr (takeWhile (\<lambda>x. \<not> is_line_terminator x) (drop (length a) (c # cs))) b)
      \<or> matches_seq a b cs)"

fun matches_not_followed :: "jsstring \<Rightarrow> jsstring \<Rightarrow> jsstring \<Rightarrow> bool" where
  "matches_not_followed a b [] = (a = [] \<and> b \<noteq> [])"
| "matches_not_followed a b (c # cs) =
     ((startsWith (c # cs) a
        \<and> \<not> includesStr (takeWhile (\<lambda>x. \<not> is_line_terminator x) (drop (length a) (c # cs))) b)
      \<or> matches_not_followed a b cs)"

text \<open>\<^verbatim>\<open>/[^:]\/{3,}/.test(s)\<close>: a code unit other than a colon, then three slashes.\<close>

fun matches_slash_run :: "jsstring \<Rightarrow> bool" where
  "matches_slash_run (c # s1 # s2 # s3 # rest) =
     ((c \<noteq> colon \<and> s1 = slash \<and> s2 = slash \<and> s3 = slash)
      \<or> matches_slash_run (s1 # s2 # s3 # rest))"
| "matches_slash_run s = False"

text \<open>
  The shapes of the patterns in \<^verbatim>\<open>settings.js\<close>: a literal, two literals around \<^verbatim>\<open>.*\<close>, a
  literal at the end of the string (\<^verbatim>\<open>$\<close>), a literal with a negative look-ahead, an
  alternation of literals, and the run of slashes; \<open>ci\<close> is the flag \<^verbatim>\<open>i\<close>.
\<close>

datatype pattern =
  Lit bool jsstring
  | Seq bool jsstring jsstring
  | AtEnd bool jsstring
  | NotFollowed jsstring jsstring
  | Alt bool "jsstring list"
  | SlashRun

definition fold_case :: "bool \<Rightarrow> jsstring \<Rightarrow> jsstring" where
  "fold_case ci s = (if ci then map canonicalize s else s)"

text \<open>\<^verbatim>\<open>pattern.test(url)\<close>.\<close>

fun test :: "pattern \<Rightarrow> jsstring \<Rightarrow> bool" where
  "test (Lit ci p) s = includesStr (fold_case ci s) (fold_case ci p)"
| "test (Seq ci a b) s = matches_seq (fold_case ci a) (fold_case ci b) (fold_case ci s)"
| "test (AtEnd ci p) s = endsWith (fold_case ci s) (fold_case ci p)"
| "test (NotFollowed a b) s = matches_not_followed a b s"
| "test (Alt ci ps) s = (\<exists>p \<in> set ps. includesStr (fold_case ci s) (fold_case ci p))"
| "test SlashRun s = matches_slash_run s"

section \<open>The settings (config/settings.js)\<close>

record settings =
  ignorePatterns :: "pattern list"
  priorityPatterns :: "(pattern \<times> int) list"
  categories :: "(jsstring \<times> pattern) list"

definition settings_ignorePatterns :: "pattern list" where
  "settings_ignorePatterns =
     map (Lit False \<circ> js)
       [''/login'', ''/netbanking'', ''/mycards'', ''/careers'', ''/investor-relations'',
        ''/press-releases'', ''/money-transfer'', ''/upi'', ''/donation'', ''/remittance'',
        ''/forex'', ''/bill-pay'', ''/recharge'', ''/fastag'', ''/demat'', ''/mutual-fund'',
        ''/loan'', ''/deposit'', ''/savings'', ''/current-account'', ''/debit-card'',
        ''/business-card'', ''/commercial-card'', ''/tax'']
     @ [NotFollowed (js ''/insurance'') (js ''credit'')]
     @ map (Lit False \<circ> js)
       [''/personal-loan'', ''/home-loan'', ''javascript:'', ''mailto:'', ''tel:'']
     @ [AtEnd False (js ''#'')]
     @ map (Lit False \<circ> js)
       [''/search'', ''/sitemap'', ''/privacy-policy'', ''/cookie-policy'', ''/contact'',
        ''/about'']
     @ map (AtEnd False \<circ> js) [''.css'', ''.js'', ''.jpg'', ''.png'', ''.gif'', ''.svg'']
     @ [Seq False (js ''{{'') (js ''}}''), Seq False (js ''%7B%7B'') (js ''%7D%7D'')]
     @ map (Lit False \<circ> js) [''CCredit'', ''immediiate'', ''nationnal'', ''remitnnow'']
     @ [SlashRun]"

definition settings_priorityPatterns :: "(pattern \<times> int) list" where
  "settings_priorityPatterns =
     [(Seq True (js ''regalia'') (js ''gold''), 25),
      (Seq True (js ''credit'') (js ''card''), 20),
      (Seq True (js ''fees'') (js ''charges''), 18),
      (Seq True (js ''terms'') (js ''conditions''), 15),
      (Lit True (js ''benefits''), 12),
      (Lit True (js ''rewards''), 10),
      (Lit True (js ''cashback''), 10),
      (Lit True (js ''points''), 9),
      (Lit True (js ''eligibility''), 8),
      (Lit True (js ''insurance''), 8),
      (Lit True (js ''coverage''), 8),
      (Lit True (js ''tnc''), 15),
      (AtEnd True (js ''.pdf''), 12),
      (Lit True (js ''pricing''), 8),
      (Lit True (js ''apply''), 7),
      (Lit True (js ''features''), 9),
      (Lit True (js ''offers''), 8),
      (Lit True (js ''lounge''), 7),
      (Lit True (js ''milestone''), 7)]"

definition settings_categories :: "(jsstring \<times> pattern) list" where
  "settings_categories =
     [(js ''fees'', Alt True [js ''fees'', js ''charges'', js ''pricing'']),
      (js ''terms'', Alt True [js ''terms'', js ''tnc'', js ''conditions'']),
      (js ''benefits'', Alt True [js ''benefits'', js ''features'', js ''offers'']),
      (js ''rewards'', Alt True [js ''rewards'', js ''cashback'', js ''points'']),
      (js ''eligibility'', Alt True [js ''eligibility'', js ''requirements'', js ''criteria'']),
      (js ''insurance'', Alt True [js ''insurance'', js ''coverage'', js ''protection'']),
      (js ''pdf'', AtEnd True (js ''.pdf'')),
      (js ''application'', Alt True [js ''apply'', js ''application''])]"

definition the_settings :: settings where
  "the_settings =
     \<lparr>ignorePatterns = settings_ignorePatterns,
      priorityPatterns = settings_priorityPatterns,
      categories = settings_categories\<rparr>"

section \<open>The platform's URL class\<close>

text \<open>
  A parsed URL, with the components of the URL standard: the scheme without its colon, the
  credentials and the port as they are serialised (empty when absent), the host (\<open>None\<close>
  for a URL without authority), the path, and the query and fragment without their
  \<^verbatim>\<open>?\<close> and \<^verbatim>\<open>#\<close> (\<open>None\<close> when absent).
\<close>

record url =
  scheme :: jsstring
  credentials :: jsstring
  host :: "jsstring option"
  port :: jsstring
  path :: jsstring
  query :: "jsstring option"
  fragment :: "jsstring option"

definition protocol :: "url \<Rightarrow> jsstring" where
  "protocol u = scheme u @ [colon]"

definition hostname :: "url \<Rightarrow> jsstring" where
  "hostname u = (case host u of None \<Rightarrow> [] | Some h \<Rightarrow> h)"

definition pathname :: "url \<Rightarrow> jsstring" where
  "pathname u = path u"

text \<open>The URL serialiser: \<^verbatim>\<open>u.toString()\<close> and \<^verbatim>\<open>u.href\<close>.\<close>

definition href_of :: "url \<Rightarrow> jsstring" where
  "href_of u =
     scheme u @ [colon]
     @ (case host u of
          None \<Rightarrow> []
        | Some h \<Rightarrow>
            js ''//'' @ (if credentials u = [] then [] else credentials u @ js ''@'') @ h
            @ (if port u = [] then [] else colon # port u))
     @ path u
     @ (case query u of None \<Rightarrow> [] | Some q \<Rightarrow> js ''?'' @ q)
     @ (case fragment u of None \<Rightarrow> [] | Some f \<Rightarrow> js ''#'' @ f)"

text \<open>\<^verbatim>\<open>u.hash = ''\<close>: the fragment is removed.\<close>

definition clear_hash :: "url \<Rightarrow> url" where
  "clear_hash u = u\<lparr>fragment := None\<rparr>"

text \<open>
  The URL parser is the platform's and is a parameter of the model: \<^verbatim>\<open>new URL(s)\<close>
  (\<open>None\<close> when it throws), \<^verbatim>\<open>new URL(s, base)\<close>, and the setter of \<^verbatim>\<open>pathname\<close>.
\<close>

record platform =
  URL_new :: "jsstring \<Rightarrow> url option"
  URL_new_base :: "jsstring \<Rightarrow> jsstring \<Rightarrow> url option"
  URL_set_pathname :: "url \<Rightarrow> jsstring \<Rightarrow> url"

section \<open>URL cleaning and validation (crawler/linkHandler.js)\<close>

text \<open>
  \<^verbatim>\<open>s.replace(/lit/g, rep)\<close> for a literal that is not empty: the occurrences are replaced
  from left to right and do not overlap.
\<close>

fun replaceAll :: "jsstring \<Rightarrow> jsstring \<Rightarrow> jsstring \<Rightarrow> jsstring" where
  "replaceAll lit rep [] = []"
| "replaceAll lit rep (c # cs) =
     (if lit \<noteq> [] \<and> startsWith (c # cs) lit
      then rep @ replaceAll lit rep (drop (length lit - 1) cs)
      else c # replaceAll lit rep cs)"

text \<open>One line of the repair table: \<^verbatim>\<open>if (cleaned.includes(k)) cleaned = cleaned.replace(/k/g, r)\<close>.\<close>

definition repair :: "string \<Rightarrow> string \<Rightarrow> jsstring \<Rightarrow> jsstring" where
  "repair k r cleaned = (if includesStr cleaned (js k) then replaceAll (js k) (js r) cleaned
                         else cleaned)"

text \<open>\<^verbatim>\<open>s.replace(/\s+/g, '%20')\<close>.\<close>

function encode_spaces :: "jsstring \<Rightarrow> jsstring" where
  "encode_spaces [] = []"
| "encode_spaces (c # cs) =
     (if is_space c then js ''%20'' @ encode_spaces (dropWhile is_space cs)
      else c # encode_spaces cs)"
  by pat_completeness auto
termination
  by (relation "measure length") (auto simp: le_imp_less_Suc length_dropWhile_le)

text \<open>
  \<^verbatim>\<open>s.replace(/https:\/\/+/g, 'https://')\<close>, with \<open>pre\<close> the text before the slashes
  (\<open>https:\<close> or \<open>http:\<close>): the pattern needs two slashes and takes all that follow.
\<close>

function squeeze_slashes_after :: "jsstring \<Rightarrow> jsstring \<Rightarrow> jsstring" where
  "squeeze_slashes_after pre [] = []"
| "squeeze_slashes_after pre (c # cs) =
     (if startsWith (c # cs) (pre @ [slash, slash])
      then pre @ [slash, slash]
           @ squeeze_slashes_after pre
               (dropWhile (\<lambda>x. x = slash) (drop (length pre + 1) cs))
      else c # squeeze_slashes_after pre cs)"
  by pat_completeness auto
termination
proof (relation "measure (\<lambda>(pre, s). length s)")
  fix pre :: jsstring and c :: nat and cs :: jsstring
  have "length (dropWhile (\<lambda>x. x = slash) (drop (length pre + 1) cs)) \<le> length cs"
    by (rule order_trans[OF length_dropWhile_le]) simp
  then show "((pre, dropWhile (\<lambda>x. x = slash) (drop (length pre + 1) cs)), pre, c # cs)
               \<in> measure (\<lambda>(pre, s). length s)"
    by simp
qed auto

text \<open>
  \<^verbatim>\<open>s.replace(/([^:]\/)\/+/g, '$1')\<close>: a code unit other than a colon, a slash, and the
  slashes that follow are replaced by the first two.
\<close>

function (sequential) collapse_slashes :: "jsstring \<Rightarrow> jsstring" where
  "collapse_slashes (c # s1 # s2 # rest) =
     (if c \<noteq> colon \<and> s1 = slash \<and> s2 = slash
      then c # slash # collapse_slashes (dropWhile (\<lambda>x. x = slash) rest)
      else c # collapse_slashes (s1 # s2 # rest))"
| "collapse_slashes s = s"
  by pat_completeness auto
termination
  by (relation "measure length")
     (auto simp: less_Suc_eq_le intro!: le_SucI length_dropWhile_le)

text \<open>\<^verbatim>\<open>s.replace(/\/$/, '')\<close>.\<close>

definition strip_trailing_slash :: "jsstring \<Rightarrow> jsstring" where
  "strip_trailing_slash s = (if s \<noteq> [] \<and> last s = slash then butlast s else s)"

text \<open>The template markers that \<^verbatim>\<open>cleanUrl\<close> and \<^verbatim>\<open>isValidUrl\<close> both refuse.\<close>

definition has_template_marker :: "jsstring \<Rightarrow> bool" where
  "has_template_marker url =
     (includesStr url (js ''{{'') \<or> includesStr url (js ''%7B%7B'')
      \<or> includesStr url (js ''}}'') \<or> includesStr url (js ''%7D%7D''))"

text \<open>\<^verbatim>\<open>cleanUrl(url)\<close> on a string; \<open>None\<close> is \<^verbatim>\<open>null\<close>.  The empty string is falsy.\<close>

definition cleanUrl :: "jsstring \<Rightarrow> jsstring option" where
  "cleanUrl url =
     (if url = [] then None
      else if has_template_marker url then None
      else Some
        (strip_trailing_slash
          (collapse_slashes
            (squeeze_slashes_after (js ''http:'')
              (squeeze_slashes_after (js ''https:'')
                (encode_spaces
                  (repair ''%20%20'' ''%20''
                    (repair ''%%20'' ''%20''
                      (repair ''donattions'' ''donations''
                        (repair ''ppay'' ''pay''
                          (repair ''Creddit'' ''Credit''
                            (repair ''Cardds'' ''Cards''
                              (repair ''ttime'' ''time''
                                (repair ''remitnnow'' ''remitnow''
                                  (repair ''nationnal'' ''national''
                                    (repair ''immediiate'' ''immediate''
                                      (repair ''Preemium'' ''Premium''
                                        (repair ''Supeer'' ''Super''
                                          (repair ''CCard'' ''Card''
                                            (repair ''Creditt'' ''Credit''
                                              (repair ''Carrds'' ''Cards''
                                                (repair ''CCredit'' ''Credit''
                                                  (trim url)))))))))))))))))))))))"

definition corruptionPatterns :: "jsstring list" where
  "corruptionPatterns =
     [js ''creddit'', js ''cardds'', js ''traansfer'', js ''milllennia'', js ''commmercial'',
      js ''busiiness'', js ''ccredit'', js ''uusers'']"

definition corruption_signatures :: "jsstring list" where
  "corruption_signatures =
     [js ''CCredit'', js ''immediiate'', js ''nationnal'', js ''remitnnow'', js ''ttime'',
      js ''Cardds'', js ''Creddit'', js ''ppay'', js ''donattions'']"

definition script_schemes :: "jsstring list" where
  "script_schemes = [js ''javascript:'', js ''data:'', js ''vbscript:'', js ''file:'']"

text \<open>\<^verbatim>\<open>isValidUrl(url)\<close>, test by test; an exception of the parser is the answer \<open>false\<close>.\<close>

definition isValidUrl :: "platform \<Rightarrow> jsstring \<Rightarrow> bool" where
  "isValidUrl P url =
     (case URL_new P url of
        None \<Rightarrow> False
      | Some urlObj \<Rightarrow>
          if protocol urlObj \<notin> set [js ''http:'', js ''https:''] then False
          else if \<exists>p \<in> set corruptionPatterns. includes_ci url p then False
          else if \<exists>p \<in> set script_schemes. startsWith_ci url p then False
          else if hostname urlObj = [] then False
          else if has_template_marker url then False
          else if \<exists>p \<in> set corruption_signatures. includes_ci url p then False
          else if startsWith (pathname urlObj) (slash # hostname urlObj @ [slash]) then False
          else if includesStr url (js ''%%20'') \<or> includesStr url (js ''%20%20'') then False
          else if length url > 2000 then False
          else True)"

text \<open>\<^verbatim>\<open>normalizeUrl(url)\<close>; every \<^verbatim>\<open>return null\<close> and the \<^verbatim>\<open>catch\<close> are \<open>None\<close>.\<close>

definition normalizeUrl :: "platform \<Rightarrow> jsstring \<Rightarrow> jsstring option" where
  "normalizeUrl P url =
     (case cleanUrl url of
        None \<Rightarrow> None
      | Some cleanedUrl \<Rightarrow>
          if cleanedUrl = [] then None
          else if \<not> isValidUrl P cleanedUrl then None
          else (case URL_new P cleanedUrl of
                  None \<Rightarrow> None
                | Some u \<Rightarrow>
                    (let u1 = (if startsWith (pathname u) (slash # hostname u @ [slash])
                               then URL_set_pathname P u
                                      (drop (length (hostname u) + 1) (pathname u))
                               else u)
                     in Some (strip_trailing_slash (href_of (clear_hash u1))))))"

text \<open>
  The URL that \<^verbatim>\<open>crawlPage(url)\<close> fetches: \<^verbatim>\<open>normalizeUrl(url) || url\<close>.
\<close>

definition crawlPage_target :: "platform \<Rightarrow> jsstring \<Rightarrow> jsstring" where
  "crawlPage_target P url =
     (case normalizeUrl P url of
        None \<Rightarrow> url
      | Some normalizedUrl \<Rightarrow> if normalizedUrl = [] then url else normalizedUrl)"

section \<open>Link triage (crawler/linkHandler.js)\<close>

text \<open>\<^verbatim>\<open>isIgnored(url)\<close>: the patterns are those of the settings module.\<close>

definition isIgnored :: "settings \<Rightarrow> jsstring \<Rightarrow> bool" where
  "isIgnored S url = (if url = [] then True else (\<exists>p \<in> set (ignorePatterns S). test p url))"

definition getPriorityScore :: "settings \<Rightarrow> jsstring \<Rightarrow> int" where
  "getPriorityScore S url =
     foldl (\<lambda>score pw. if test (fst pw) url then score + snd pw else score) 0
       (priorityPatterns S)"

definition categorizeLink :: "settings \<Rightarrow> jsstring \<Rightarrow> jsstring" where
  "categorizeLink S url =
     (case find (\<lambda>np. test (snd np) url) (categories S) of
        None \<Rightarrow> js ''general''
      | Some np \<Rightarrow> fst np)"

text \<open>
  \<^verbatim>\<open>isPDFLink(url)\<close>.  A path of a parsed URL is ASCII, and on any string the last four
  code units of the lower-cased text are \<open>.pdf\<close> exactly when they are so after
  lower-casing the ASCII letters.
\<close>

definition isPDFLink :: "platform \<Rightarrow> jsstring \<Rightarrow> bool" where
  "isPDFLink P url =
     (case URL_new P url of
        None \<Rightarrow> False
      | Some urlObj \<Rightarrow> endsWith (ascii_toLowerCase (pathname urlObj)) (js ''.pdf''))"

text \<open>
  An element of the \<^verbatim>\<open>links\<close> array: a string, or an object with \<^verbatim>\<open>href\<close> (\<open>None\<close> when it is
  missing or not a string), \<^verbatim>\<open>text\<close> and \<^verbatim>\<open>title\<close>.
\<close>

datatype link = LinkString jsstring | LinkObject "jsstring option" jsstring jsstring

text \<open>A processed link; the time stamp \<^verbatim>\<open>processedAt\<close> is left out.\<close>

record processed_link =
  link_href :: jsstring
  link_text :: jsstring
  link_title :: jsstring
  priority :: int
  category :: jsstring
  isPDF :: bool
  link_type :: jsstring

text \<open>The resolution of \<^verbatim>\<open>href\<close> against \<^verbatim>\<open>baseUrl\<close>; \<open>None\<close> is \<^verbatim>\<open>continue\<close>.\<close>

definition absoluteUrl :: "platform \<Rightarrow> jsstring \<Rightarrow> jsstring \<Rightarrow> jsstring option" where
  "absoluteUrl P baseUrl href =
     (if startsWith href (js ''/'') then Some (baseUrl @ href)
      else if startsWith href (js ''http://'') \<or> startsWith href (js ''https://'')
      then Some href
      else if startsWith href (js ''./'') \<or> startsWith href (js ''../'')
      then map_option href_of (URL_new_base P href baseUrl)
      else if \<not> includesStr href (js ''://'') then Some (baseUrl @ js ''/'' @ href)
      else None)"

text \<open>The body of the loop of \<^verbatim>\<open>processLinks\<close> for one link; \<open>None\<close> is \<^verbatim>\<open>continue\<close>.\<close>

definition process_link :: "platform \<Rightarrow> settings \<Rightarrow> jsstring \<Rightarrow> link \<Rightarrow> processed_link option" where
  "process_link P S baseDomain l =
     (case (case l of LinkString s \<Rightarrow> Some s | LinkObject h t ti \<Rightarrow> h) of
        None \<Rightarrow> None
      | Some href \<Rightarrow>
          if href = [] then None
          else if startsWith href (js ''javascript:'') \<or> startsWith href (js ''mailto:'')
                  \<or> startsWith href (js ''tel:'') \<or> href = js ''#'' \<or> href = js ''/''
          then None
          else
            (case absoluteUrl P (js ''https://'' @ baseDomain) href of
               None \<Rightarrow> None
             | Some absolute \<Rightarrow>
                 (case cleanUrl absolute of
                    None \<Rightarrow> None
                  | Some cleanedUrl \<Rightarrow>
                      if cleanedUrl = [] then None
                      else
                        (case URL_new P cleanedUrl of
                           None \<Rightarrow> None
                         | Some urlObj \<Rightarrow>
                             (let finalUrl = strip_trailing_slash (href_of (clear_hash urlObj))
                              in if \<not> includesStr (hostname urlObj) baseDomain then None
                                 else if isIgnored S finalUrl then None
                                 else
                                   (let pdf = isPDFLink P finalUrl
                                    in Some
                                      \<lparr>link_href = finalUrl,
                                       link_text = (case l of LinkString s \<Rightarrow> []
                                                    | LinkObject h t ti \<Rightarrow> t),
                                       link_title = (case l of LinkString s \<Rightarrow> []
                                                     | LinkObject h t ti \<Rightarrow> ti),
                                       priority = getPriorityScore S finalUrl,
                                       category = categorizeLink S finalUrl,
                                       isPDF = pdf,
                                       link_type = (if pdf then js ''pdf'' else js ''page'')\<rparr>))))))"

text \<open>
  \<^verbatim>\<open>Array.from(new Map(processedLinks.map(l => [l.href, l])).values())\<close>: one link for each
  \<^verbatim>\<open>href\<close>, at the place of its first occurrence, with the data of its last.
\<close>

definition uniqueLinks :: "processed_link list \<Rightarrow> processed_link list" where
  "uniqueLinks ls = map snd (foldl (\<lambda>m l. AList.update (link_href l) l m) [] ls)"

record link_results =
  internalLinks :: "processed_link list"
  pdfLinks :: "processed_link list"

definition processLinks :: "platform \<Rightarrow> settings \<Rightarrow> link list \<Rightarrow> jsstring \<Rightarrow> link_results" where
  "processLinks P S links baseDomain =
     (let unique = uniqueLinks (List.map_filter (process_link P S baseDomain) links)
      in \<lparr>internalLinks = filter (\<lambda>l. \<not> isPDF l) unique,
          pdfLinks = filter (\<lambda>l. isPDF l) unique\<rparr>)"

definition handleLinks :: "platform \<Rightarrow> settings \<Rightarrow> link list \<Rightarrow> jsstring \<Rightarrow> link_results" where
  "handleLinks P S links baseDomain =
     (if baseDomain = [] then \<lparr>internalLinks = [], pdfLinks = []\<rparr>
      else processLinks P S links baseDomain)"

section \<open>The orchestrator (index.js, extractCardData)\<close>

text \<open>\<^verbatim>\<open>xs.slice(0, n)\<close>: a negative \<open>n\<close> counts from the end.\<close>

definition slice0 :: "int \<Rightarrow> 'a list \<Rightarrow> 'a list" where
  "slice0 n xs = (if n < 0 then take (nat (int (length xs) + n)) xs else take (nat n) xs)"

text \<open>
  \<^verbatim>\<open>pagesToCrawl\<close> and \<^verbatim>\<open>pdfsToProcess\<close>: the first \<^verbatim>\<open>Math.min(length, max)\<close> links of the list
  that \<^verbatim>\<open>handleLinks\<close> returned.
\<close>

definition pagesToCrawl :: "int \<Rightarrow> link_results \<Rightarrow> processed_link list" where
  "pagesToCrawl maxPages r =
     (if length (internalLinks r) > 0
      then slice0 (min (int (length (internalLinks r))) maxPages) (internalLinks r)
      else [])"

definition pdfsToProcess :: "int \<Rightarrow> link_results \<Rightarrow> processed_link list" where
  "pdfsToProcess maxPDFs r =
     (if length (pdfLinks r) > 0
      then slice0 (min (int (length (pdfLinks r))) maxPDFs) (pdfLinks r)
      else [])"

text \<open>
  The resources \<^verbatim>\<open>extractCardData\<close> fetches when the fetch of the seed page succeeds and
  yields \<open>seedLinks\<close>: the seed, then each page of \<^verbatim>\<open>pagesToCrawl\<close> (by \<^verbatim>\<open>crawlPage\<close>), then each
  document of \<^verbatim>\<open>pdfsToProcess\<close> (by \<^verbatim>\<open>parsePDF\<close>), in this order.  A fetch that fails or is
  rejected is logged and the loop goes on, so the list does not depend on the outcomes.
\<close>

record crawl_settings =
  cardUrl :: jsstring
  baseDomain :: jsstring
  maxPages :: int
  maxPDFs :: int

definition fetched :: "platform \<Rightarrow> settings \<Rightarrow> crawl_settings \<Rightarrow> link list \<Rightarrow> processed_link list" where
  "fetched P S cfg seedLinks =
     (let r = handleLinks P S seedLinks (baseDomain cfg)
      in pagesToCrawl (maxPages cfg) r @ pdfsToProcess (maxPDFs cfg) r)"

definition fetch_results :: "platform \<Rightarrow> settings \<Rightarrow> crawl_settings \<Rightarrow> link list \<Rightarrow> jsstring list" where
  "fetch_results P S cfg seedLinks = cardUrl cfg # map link_href (fetched P S cfg seedLinks)"

section \<open>A reference parser for plain URLs\<close>

text \<open>
  The statements about all inputs below hold for every parser.  To run the code on a
  given input one parser is needed, and this one covers the plain URLs
  \<^verbatim>\<open>scheme://host/path?query#fragment\<close> on which the URL standard does nothing but lower
  the case of scheme and host and supply the path \<^verbatim>\<open>/\<close>: a scheme among http, https,
  ftp, ws and wss, a host of letters, digits, dots and hyphens that ends in a letter, no
  credentials and no port, path segments of letters, digits, \<open>-\<close>, \<open>_\<close> and \<open>.\<close> other than
  \<open>.\<close> and \<open>..\<close>, and a query and a fragment of letters, digits, \<open>-\<close>, \<open>_\<close>, \<open>=\<close> and \<open>&\<close>.
  On every other input it answers \<open>None\<close>; the platform's parser accepts many of those,
  and none of them is used below.
\<close>

definition is_alpha :: "nat \<Rightarrow> bool" where
  "is_alpha c = ((65 \<le> c \<and> c \<le> 90) \<or> (97 \<le> c \<and> c \<le> 122))"

definition is_digit :: "nat \<Rightarrow> bool" where
  "is_digit c = (48 \<le> c \<and> c \<le> 57)"

definition plain_host_char :: "nat \<Rightarrow> bool" where
  "plain_host_char c = (is_alpha c \<or> is_digit c \<or> c = 45 \<or> c = 46)"

definition plain_path_char :: "nat \<Rightarrow> bool" where
  "plain_path_char c = (is_alpha c \<or> is_digit c \<or> c = 45 \<or> c = 46 \<or> c = 95 \<or> c = slash)"

definition plain_query_char :: "nat \<Rightarrow> bool" where
  "plain_query_char c = (is_alpha c \<or> is_digit c \<or> c = 45 \<or> c = 95 \<or> c = 61 \<or> c = 38)"

text \<open>The segments of a path: the texts between its slashes.\<close>

fun segments :: "jsstring \<Rightarrow> jsstring list" where
  "segments [] = [[]]"
| "segments (c # cs) =
     (if c = slash then [] # segments cs
      else (case segments cs of seg # segs \<Rightarrow> (c # seg) # segs | [] \<Rightarrow> [[c]]))"

definition plain_path :: "jsstring \<Rightarrow> bool" where
  "plain_path p =
     (list_all plain_path_char p
      \<and> (p = [] \<or> hd p = slash)
      \<and> js ''.'' \<notin> set (segments p) \<and> js ''..'' \<notin> set (segments p))"

definition parse_plain :: "jsstring \<Rightarrow> url option" where
  "parse_plain s =
     (let sch = ascii_toLowerCase (takeWhile (\<lambda>c. c \<noteq> colon) s);
          rest = dropWhile (\<lambda>c. c \<noteq> colon) s
      in if sch \<notin> set [js ''http'', js ''https'', js ''ftp'', js ''ws'', js ''wss''] then None
         else if \<not> startsWith rest (js ''://'') then None
         else
           (let r = drop 3 rest;
                h = takeWhile (\<lambda>c. c \<noteq> slash \<and> c \<noteq> 63 \<and> c \<noteq> 35) r;
                r1 = dropWhile (\<lambda>c. c \<noteq> slash \<and> c \<noteq> 63 \<and> c \<noteq> 35) r;
                p = takeWhile (\<lambda>c. c \<noteq> 63 \<and> c \<noteq> 35) r1;
                r2 = dropWhile (\<lambda>c. c \<noteq> 63 \<and> c \<noteq> 35) r1;
                q = (if startsWith r2 (js ''?'')
                     then Some (takeWhile (\<lambda>c. c \<noteq> 35) (tl r2)) else None);
                r3 = dropWhile (\<lambda>c. c \<noteq> 35) r2;
                f = (if startsWith r3 (js ''#'') then Some (tl r3) else None)
            in if h = [] \<or> \<not> list_all plain_host_char h \<or> \<not> is_alpha (last h) then None
               else if \<not> plain_path p then None
               else if \<not> (case q of None \<Rightarrow> True | Some q' \<Rightarrow> list_all plain_query_char q')
               then None
               else if \<not> (case f of None \<Rightarrow> True | Some f' \<Rightarrow> list_all plain_query_char f')
               then None
               else Some
                 \<lparr>scheme = sch, credentials = [], host = Some (ascii_toLowerCase h),
                  port = [], path = (if p = [] then js ''/'' else p), query = q,
                  fragment = f\<rparr>))"

text \<open>
  A reference \<^verbatim>\<open>./x\<close> or \<^verbatim>\<open>../x\<close> against a base whose path is \<^verbatim>\<open>/\<close>: the leading dot
  segments lead nowhere above the root.
\<close>

function strip_dot_segments :: "jsstring \<Rightarrow> jsstring" where
  "strip_dot_segments s =
     (if startsWith s (js ''./'') then strip_dot_segments (drop 2 s)
      else if startsWith s (js ''../'') then strip_dot_segments (drop 3 s)
      else s)"
  by pat_completeness auto
termination
  by (relation "measure length") (auto simp: js_def elim!: startsWith.elims)

definition resolve_plain :: "jsstring \<Rightarrow> jsstring \<Rightarrow> url option" where
  "resolve_plain ref base =
     (case parse_plain base of
        None \<Rightarrow> None
      | Some b \<Rightarrow>
          if path b \<noteq> js ''/'' \<or> query b \<noteq> None \<or> fragment b \<noteq> None then None
          else parse_plain (href_of b @ strip_dot_segments ref))"

definition plain_platform :: platform where
  "plain_platform =
     \<lparr>URL_new = parse_plain, URL_new_base = resolve_plain,
      URL_set_pathname = (\<lambda>u p. u\<lparr>path := p\<rparr>)\<rparr>"

section \<open>Concrete inputs of the link examples\<close>

text \<open>
  The scenario of the specification: the seed page yields eight links to pages, three of
  which match an ignore pattern, and two links to PDF documents.
\<close>

definition seed_links :: "link list" where
  "seed_links =
     map (LinkString \<circ> js)
       [''/personal/pay/cards'', ''/login'', ''/apply-online'', ''/careers'', ''/rewards'',
        ''/about-us'', ''/benefits'', ''/regalia-gold-credit-card'', ''/docs/brochure.pdf'',
        ''/docs/tnc.pdf'']"

definition scenario :: crawl_settings where
  "scenario =
     \<lparr>cardUrl = js ''https://hdfcbank.com/regalia-gold'', baseDomain = js ''hdfcbank.com'',
      maxPages = 3, maxPDFs = 1\<rparr>"

text \<open>A page link as \<^verbatim>\<open>processLinks\<close> returns it for a string element of \<^verbatim>\<open>links\<close>.\<close>

definition page_link :: "string \<Rightarrow> int \<Rightarrow> string \<Rightarrow> processed_link" where
  "page_link u p c =
     \<lparr>link_href = js u, link_text = [], link_title = [], priority = p, category = js c,
      isPDF = False, link_type = js ''page''\<rparr>"

definition pdf_link :: "string \<Rightarrow> int \<Rightarrow> string \<Rightarrow> processed_link" where
  "pdf_link u p c =
     \<lparr>link_href = js u, link_text = [], link_title = [], priority = p, category = js c,
      isPDF = True, link_type = js ''pdf''\<rparr>"

text \<open>A link that matches the ignore pattern \<^verbatim>\<open>/\/login/\<close> and two priority patterns.\<close>

definition ignored_links :: "link list" where
  "ignored_links = map (LinkString \<circ> js) [''/login/credit-card-benefits'', ''/rewards'']"



section \<open>Retry policy: the three cases of the specification\<close>

lemma categorize_http_error:
  "categorizeError (http_error 404) = NOT_FOUND"
  "categorizeError (http_error 500) = SERVER_ERROR"
  "categorizeError (http_error 429) = RATE_LIMIT"
  by (simp_all add: categorizeError_def http_error_def categorize_status_def)

text \<open>
  Claim C1.  The specification lists three cases of the retry policy: a 404 at attempt 1 of 3
  is not retried, a 5xx at attempt 2 of 3 is retried, and a rate-limited request at attempt 4
  of 3 is retried because it has \<open>maxAttempts + 2\<close> attempts.  The first two hold.  The third
  does not: \<^verbatim>\<open>shouldRetry\<close> returns \<open>false\<close> as soon as \<open>attempt \<ge> maxAttempts\<close>, before the
  error is classified, so the test \<open>attempt < maxAttempts + 2\<close> of the rate-limit branch is
  only reached when it is true, and a rate-limited request gets no attempt beyond
  \<open>maxAttempts\<close>.  The same holds when the error is an instance of \<^verbatim>\<open>RateLimitError\<close>.
\<close>

theorem shouldRetry_spec_cases:
  "shouldRetry (http_error 404) 1 3 = False
   \<and> shouldRetry (http_error 500) 2 3 = True
   \<and> shouldRetry (http_error 429) 4 3 = False
   \<and> shouldRetry (http_error 429) 3 3 = False
   \<and> shouldRetry \<lparr>err_class = RateLimitError, response_status = None, err_code = None,
        message = js ''Too many requests''\<rparr> 4 3 = False"
  by (simp add: shouldRetry_def categorize_http_error noRetryTypes_def alwaysRetryTypes_def)

section \<open>Facts about strings and objects\<close>

lemma js_eq_iff [simp]: "js a = js b \<longleftrightarrow> a = b"
  by (simp add: js_def inj_map_eq_map inj_on_def)

lemma js_eq_Nil [simp]: "js s = [] \<longleftrightarrow> s = []"
  by (simp add: js_def)

lemma trim_Nil [simp]: "trim [] = []"
  by (simp add: trim_def)

lemma obj_get_simps [simp]:
  "obj_get [] k = JUndefined"
  "obj_get ((k', v) # ob) k = (if k' = k then v else obj_get ob k)"
  by (simp_all add: obj_get_def)

lemma obj_set_simps [simp]:
  "obj_set [] k v = [(k, v)]"
  "obj_set ((k', v') # ob) k v = (if k' = k then (k, v) # ob else (k', v') # obj_set ob k v)"
  by (simp_all add: obj_set_def)

lemma obj_get_set: "obj_get (obj_set ob k v) k' = (if k' = k then v else obj_get ob k')"
  by (simp add: obj_get_def obj_set_def update_conv')

lemma emptyCard:
  "createEmptyCardData =
     [(js ''cardName'', JNull), (js ''annualFee'', JNull), (js ''joiningFee'', JNull),
      (js ''rewards'', JArr []), (js ''benefits'', JArr []),
      (js ''eligibilityCriteria'', JArr []), (js ''documentsRequired'', JArr []),
      (js ''interestRate'', JNull), (js ''otherCharges'', JArr []),
      (js ''links'', JObj []), (js ''cardType'', JNull), (js ''creditLimit'', JNull),
      (js ''welcomeBenefits'', JArr []), (js ''milestoneBenefits'', JArr []),
      (js ''loungeAccess'', JObj []), (js ''insurance'', JObj []),
      (js ''redemptionOptions'', JArr []), (js ''foreignCurrencyMarkup'', JNull),
      (js ''contactInfo'', JObj [])]"
  by (simp add: createEmptyCardData_def cardSchema_def empty_value_def)

section \<open>The aggregator: which fields a merge step touches\<close>

lemma merge_string_field_other:
  "g \<noteq> f \<Longrightarrow> obj_get (merge_string_field src c g) f = obj_get c f"
  by (simp add: merge_string_field_def Let_def obj_get_set)


lemma foldl_merge_string_notin:
  "f \<notin> set gs \<Longrightarrow> obj_get (foldl (merge_string_field src) c gs) f = obj_get c f"
  by (induction gs arbitrary: c) (auto simp: merge_string_field_other)


lemma merge_array_field_other:
  "merge_array_field src c g = Inr c' \<Longrightarrow> g \<noteq> f \<Longrightarrow> obj_get c' f = obj_get c f"
  by (auto simp: merge_array_field_def Let_def obj_get_set
           split: jsval.splits if_splits sum.splits)

lemma merge_array_fields_other:
  "merge_array_fields src c gs = Inr c' \<Longrightarrow> f \<notin> set gs \<Longrightarrow> obj_get c' f = obj_get c f"
proof (induction gs arbitrary: c)
  case Nil
  then show ?case by simp
next
  case (Cons g gs)
  from Cons.prems obtain c1 where 1: "merge_array_field src c g = Inr c1"
    and 2: "merge_array_fields src c1 gs = Inr c'"
    by (auto split: sum.splits)
  from Cons.prems have "g \<noteq> f" "f \<notin> set gs" by auto
  then show ?case using Cons.IH[OF 2] merge_array_field_other[OF 1] by simp
qed

lemma mergeObjectField_other:
  "mergeObjectField g v c = Inr c' \<Longrightarrow> g \<noteq> f \<Longrightarrow> obj_get c' f = obj_get c f"
  by (auto simp: mergeObjectField_def Let_def obj_get_set
           split: jsval.splits if_splits sum.splits option.splits)

lemma merge_object_fields_other:
  "merge_object_fields src c gs = Inr c' \<Longrightarrow> f \<notin> set gs \<Longrightarrow> obj_get c' f = obj_get c f"
proof (induction gs arbitrary: c)
  case Nil
  then show ?case by simp
next
  case (Cons g gs)
  from Cons.prems obtain c1 where 1: "mergeObjectField g (obj_get src g) c = Inr c1"
    and 2: "merge_object_fields src c1 gs = Inr c'"
    by (auto split: sum.splits)
  from Cons.prems have "g \<noteq> f" "f \<notin> set gs" by auto
  then show ?case using Cons.IH[OF 2] mergeObjectField_other[OF 1] by simp
qed




lemma arrayFields_distinct: "distinct arrayFields"
  by (simp add: arrayFields_def)

lemma arrayFields_not_string: "f \<in> set arrayFields \<Longrightarrow> f \<notin> set stringFields"
  by (auto simp add: stringFields_def arrayFields_def)

lemma arrayFields_not_object: "f \<in> set arrayFields \<Longrightarrow> f \<notin> set objectFields"
  by (auto simp add: arrayFields_def objectFields_def)


lemma mergeObjectField_undefined [simp]: "mergeObjectField g JUndefined c = Inr c"
  by (simp add: mergeObjectField_def)

lemma merge_array_field_undefined [simp]:
  "obj_get src g = JUndefined \<Longrightarrow> merge_array_field src c g = Inr c"
  by (simp add: merge_array_field_def)

lemmas run_simps =
  merged_field_def addSourceData_def mergeData_def stringFields_def arrayFields_def
  objectFields_def merge_string_field_def merge_array_field_def push_item_def
  newAggregator_def emptyCard getCardData_def

section \<open>The aggregator: scalar fields\<close>









section \<open>The aggregator: collection fields\<close>

text \<open>The step of the push loop on a list of strings, and what a run of it builds.\<close>

lemma first_seen_set [simp]: "set (first_seen xs) = set xs"
proof (induction xs rule: first_seen.induct)
  case 1
  then show ?case by simp
next
  case (2 x xs)
  then show ?case by auto
qed

lemma first_seen_distinct [simp]: "distinct (first_seen xs)"
proof (induction xs rule: first_seen.induct)
  case 1
  then show ?case by simp
next
  case (2 x xs)
  then show ?case by auto
qed

lemma foldl_push_first_seen:
  "distinct acc \<Longrightarrow>
   foldl (\<lambda>acc t. if t \<in> set acc then acc else acc @ [t]) acc ts
     = acc @ first_seen (filter (\<lambda>t. t \<notin> set acc) ts)"
proof (induction ts arbitrary: acc)
  case Nil
  then show ?case by simp
next
  case (Cons t ts)
  show ?case
  proof (cases "t \<in> set acc")
    case True
    then show ?thesis using Cons by simp
  next
    case False
    have "filter (\<lambda>x. x \<notin> set (acc @ [t])) ts = removeAll t (filter (\<lambda>x. x \<notin> set acc) ts)"
      by (induction ts) auto
    then show ?thesis using False Cons.prems Cons.IH[of "acc @ [t]"]
      by simp
  qed
qed

lemma map_filter_app:
  "List.map_filter f (xs @ ys) = List.map_filter f xs @ List.map_filter f ys"
  by (simp add: List.map_filter_def)

lemma push_item_strings:
  "push_item (JArr (map JStr acc)) item = Inr cur \<Longrightarrow>
   cur = JArr (map JStr (foldl (\<lambda>acc t. if t \<in> set acc then acc else acc @ [t]) acc
                          (List.map_filter trimmed_form [item])))"
  by (cases item)
     (auto simp: push_item_def trimmed_form_def Let_def split: if_splits)

lemma push_items_strings:
  "push_items (JArr (map JStr acc)) items = Inr cur \<Longrightarrow>
   cur = JArr (map JStr (foldl (\<lambda>acc t. if t \<in> set acc then acc else acc @ [t]) acc
                          (List.map_filter trimmed_form items)))"
proof (induction items arbitrary: acc)
  case Nil
  then show ?case by simp
next
  case (Cons item items)
  from Cons.prems obtain c1 where 1: "push_item (JArr (map JStr acc)) item = Inr c1"
    and 2: "push_items c1 items = Inr cur"
    by (auto split: sum.splits)
  note c1 = push_item_strings[OF 1]
  from Cons.IH[OF 2[unfolded c1]] show ?case
    by (cases "trimmed_form item") simp_all
qed

lemma merge_array_field_same:
  assumes "merge_array_field src c f = Inr c'" "obj_get c f = JArr (map JStr acc)"
  shows "obj_get c' f =
     JArr (map JStr (foldl (\<lambda>acc t. if t \<in> set acc then acc else acc @ [t]) acc
                      (List.map_filter trimmed_form (entries f [(src, t, u)]))))"
proof (cases "obj_get src f")
  case (JArr items)
  show ?thesis
  proof (cases "items = []")
    case True
    then show ?thesis using assms JArr by (simp add: merge_array_field_def entries_def)
  next
    case False
    with assms JArr obtain cur where 1: "push_items (JArr (map JStr acc)) items = Inr cur"
      and 2: "c' = obj_set c f cur"
      by (auto simp: merge_array_field_def Let_def split: sum.splits)
    from push_items_strings[OF 1] 2 JArr show ?thesis
      by (simp add: obj_get_set entries_def)
  qed
qed (use assms in \<open>auto simp: merge_array_field_def entries_def\<close>)

lemma merge_array_fields_same:
  assumes "distinct gs" "f \<in> set gs"
  shows "merge_array_fields src c gs = Inr c' \<Longrightarrow> obj_get c f = JArr (map JStr acc) \<Longrightarrow>
    obj_get c' f =
     JArr (map JStr (foldl (\<lambda>acc t. if t \<in> set acc then acc else acc @ [t]) acc
                      (List.map_filter trimmed_form (entries f [(src, t, u)]))))"
  using assms
proof (induction gs arbitrary: c)
  case Nil
  then show ?case by simp
next
  case (Cons g gs)
  from Cons.prems(1) obtain c1 where 1: "merge_array_field src c g = Inr c1"
    and 2: "merge_array_fields src c1 gs = Inr c'"
    by (auto split: sum.splits)
  show ?case
  proof (cases "g = f")
    case True
    with Cons.prems have nin: "f \<notin> set gs" by simp
    from merge_array_field_same[OF 1[unfolded True] Cons.prems(2)]
      merge_array_fields_other[OF 2 nin]
    show ?thesis by simp
  next
    case False
    with Cons.prems have d: "distinct gs" "f \<in> set gs" by auto
    from merge_array_field_other[OF 1 False] Cons.prems(2)
    have "obj_get c1 f = JArr (map JStr acc)" by simp
    from Cons.IH[OF 2 this d] show ?thesis .
  qed
qed

lemma mergeData_array:
  assumes "f \<in> set arrayFields" "mergeData src c = Inr c'"
    "obj_get c f = JArr (map JStr acc)"
  shows "obj_get c' f =
     JArr (map JStr (foldl (\<lambda>acc t. if t \<in> set acc then acc else acc @ [t]) acc
                      (List.map_filter trimmed_form (entries f [(src, t, u)]))))"
proof -
  from assms(2) obtain c1 where
    1: "merge_array_fields src (foldl (merge_string_field src) c stringFields) arrayFields
          = Inr c1"
    and 2: "merge_object_fields src c1 objectFields = Inr c'"
    by (auto simp: mergeData_def split: sum.splits)
  have 0: "obj_get (foldl (merge_string_field src) c stringFields) f = JArr (map JStr acc)"
    using foldl_merge_string_notin[OF arrayFields_not_string[OF assms(1)]] assms(3) by simp
  have "obj_get c' f = obj_get c1 f"
    using merge_object_fields_other[OF 2] arrayFields_not_object[OF assms(1)] by simp
  with merge_array_fields_same[OF arrayFields_distinct assms(1) 1 0] show ?thesis by simp
qed

lemma addSources_array:
  assumes "f \<in> set arrayFields"
  shows "addSources a srcs = Inr b \<Longrightarrow> obj_get (cardData a) f = JArr (map JStr acc) \<Longrightarrow>
    obj_get (cardData b) f =
      JArr (map JStr (foldl (\<lambda>acc t. if t \<in> set acc then acc else acc @ [t]) acc
                       (List.map_filter trimmed_form (entries f srcs))))"
proof (induction srcs arbitrary: a acc)
  case Nil
  then show ?case by (simp add: entries_def)
next
  case (Cons s srcs)
  obtain d t u where s: "s = (d, t, u)" by (cases s)
  from Cons.prems s obtain a1 where 1: "addSourceData d t u a = Inr a1"
    and 2: "addSources a1 srcs = Inr b"
    by (auto split: sum.splits)
  from 1 obtain c1 where 3: "mergeData d (cardData a) = Inr c1" and 4: "cardData a1 = c1"
    by (auto simp: addSourceData_def split: sum.splits)
  note m = mergeData_array[OF assms 3 Cons.prems(2), of t u]
  have e: "entries f (s # srcs) = entries f [(d, t, u)] @ entries f srcs"
    by (simp add: entries_def s)
  from Cons.IH[OF 2 m[folded 4]] show ?case
    by (simp add: e map_filter_app)
qed

lemma fresh_array:
  "f \<in> set arrayFields \<Longrightarrow> obj_get (cardData newAggregator) f = JArr (map JStr [])"
  unfolding arrayFields_def newAggregator_def emptyCard
  by (auto simp: obj_get_def)

text \<open>
  Claim C7, as amended.  For each collection field and every run of \<^verbatim>\<open>addSourceData\<close>
  calls on a new aggregator that raises no exception, the merged array holds the trimmed
  forms of the non-blank string entries of all sources, each once, in first-seen order;
  two entries are the same when their trimmed forms are equal code unit by code unit (so
  case matters).
\<close>

theorem collection_union_first_seen:
  assumes "field \<in> set arrayFields"
    and "merged_field field srcs = Inr v"
  shows "\<exists>ts. v = JArr (map JStr ts)
           \<and> ts = first_seen (List.map_filter trimmed_form (entries field srcs))
           \<and> distinct ts
           \<and> set ts = set (List.map_filter trimmed_form (entries field srcs))"
proof -
  from assms(2) obtain a where a: "addSources newAggregator srcs = Inr a"
    and v: "v = obj_get (cardData a) field"
    by (auto simp: merged_field_def getCardData_def split: sum.splits)
  from addSources_array[OF assms(1) a fresh_array[OF assms(1)]] v
  show ?thesis by (simp add: foldl_push_first_seen)
qed

lemma trim_examples:
  "trim (js ''Lounge Access'') = js ''Lounge Access''"
  "trim (js ''lounge access '') = js ''lounge access''"
  "trim (js ''Lounge Access '') = js ''Lounge Access''"
  "trim (js ''  '') = []"
  "trim (js ''Priority Pass'') = js ''Priority Pass''"
  by (simp_all add: trim_def js_def is_space_def)

lemma lounge_AC:
  "merged_field (js ''benefits'') [lounge_A, lounge_C]
     = Inr (JArr [JStr (js ''Lounge Access''), JStr (js ''Priority Pass'')])"
  by (simp add: lounge_A_def lounge_C_def run_simps trim_examples)

text \<open>
  An entry that differs from an earlier one by surrounding white space only is dropped,
  and so is a blank entry.
\<close>

theorem collection_union_first_seen_witness:
  "js ''benefits'' \<in> set arrayFields
   \<and> merged_field (js ''benefits'') [lounge_A, lounge_C]
       = Inr (JArr [JStr (js ''Lounge Access''), JStr (js ''Priority Pass'')])
   \<and> first_seen (List.map_filter trimmed_form (entries (js ''benefits'') [lounge_A, lounge_C]))
       = [js ''Lounge Access'', js ''Priority Pass'']"
proof -
  have f: "js ''benefits'' \<in> set arrayFields" by (simp add: arrayFields_def)
  from collection_union_first_seen[OF f lounge_AC] obtain ts where
    *: "JArr [JStr (js ''Lounge Access''), JStr (js ''Priority Pass'')] = JArr (map JStr ts)
        \<and> ts = first_seen (List.map_filter trimmed_form
                     (entries (js ''benefits'') [lounge_A, lounge_C]))
        \<and> distinct ts
        \<and> set ts = set (List.map_filter trimmed_form
                     (entries (js ''benefits'') [lounge_A, lounge_C]))" ..
  from * have ts: "ts = first_seen (List.map_filter trimmed_form
                     (entries (js ''benefits'') [lounge_A, lounge_C]))"
    by simp
  from * have "map JStr ts = map JStr [js ''Lounge Access'', js ''Priority Pass'']" by simp
  moreover have "inj JStr" by (simp add: inj_on_def)
  ultimately have "ts = [js ''Lounge Access'', js ''Priority Pass'']"
    by (simp only: inj_map_eq_map)
  with f lounge_AC ts show ?thesis by simp
qed

text \<open>
  The example of claim C7 as stated: the entries \<open>Lounge Access\<close> and \<open>lounge access\<close>
  followed by a space do not become one entry.  After trimming they still differ in case,
  the comparison is case-sensitive, and the merged array has two entries.
\<close>

theorem lounge_access_two_entries:
  "merged_field (js ''benefits'') [lounge_A, lounge_B]
     = Inr (JArr [JStr (js ''Lounge Access''), JStr (js ''lounge access'')])
   \<and> trim (js ''lounge access '') \<noteq> js ''Lounge Access''"
  by (simp add: lounge_A_def lounge_B_def run_simps trim_examples)

section \<open>The completeness report\<close>

lemma isFilled_cases:
  "isFilled v =
     (case v of
        JArr xs \<Rightarrow> xs \<noteq> []
      | JObj kvs \<Rightarrow> kvs \<noteq> []
      | JStr s \<Rightarrow> s \<noteq> []
      | JNull \<Rightarrow> False
      | JUndefined \<Rightarrow> False
      | JBool b \<Rightarrow> True
      | JNum n \<Rightarrow> True)"
  by (cases v) (simp_all add: isFilled_def obj_keys_def)

lemma report_fold_total:
  "totalFields (foldl (report_field cd) r ks) = totalFields r + length ks"
  by (induction ks arbitrary: r) (simp_all add: report_field_def Let_def)

lemma report_fold_filled:
  "filledFields (foldl (report_field cd) r ks) =
     filledFields r + length (filter (\<lambda>k. isFilled (obj_get cd k)) ks)"
  by (induction ks arbitrary: r) (simp_all add: report_field_def Let_def)

lemma obj_get_own_keys:
  assumes "distinct (map fst cd)"
  shows "filter (\<lambda>k. P (obj_get cd k)) (map fst cd) = map fst (filter (\<lambda>kv. P (snd kv)) cd)"
proof -
  have own: "\<And>kv. kv \<in> set cd \<Longrightarrow> obj_get cd (fst kv) = snd kv"
    using assms by (auto simp: obj_get_def)
  have "filter (\<lambda>k. P (obj_get cd k)) (map fst cd)
          = map fst (filter (\<lambda>kv. P (obj_get cd (fst kv))) cd)"
    by (simp add: filter_map comp_def)
  also have "filter (\<lambda>kv. P (obj_get cd (fst kv))) cd = filter (\<lambda>kv. P (snd kv)) cd"
    using own by (intro filter_cong) auto
  finally show ?thesis .
qed

lemma report_counts:
  assumes "distinct (obj_keys (cardData a))"
  shows "totalFields (fst (getCompletenessReport a)) = length (cardData a)"
    and "filledFields (fst (getCompletenessReport a))
           = length (filter (\<lambda>kv. isFilled (snd kv)) (cardData a))"
  using assms obj_get_own_keys[of "cardData a" isFilled]
  by (simp_all add: getCompletenessReport_def Let_def report_fold_total report_fold_filled
        obj_keys_def)

lemma report_percentage:
  "completenessPercentage (fst (getCompletenessReport a))
     = js_times_100 (js_div (filledFields (fst (getCompletenessReport a)))
                            (totalFields (fst (getCompletenessReport a))))"
  by (simp add: getCompletenessReport_def Let_def)

lemma percentage_11_of_20: "js_times_100 (js_div 11 20) = Num (55 + 1 / 2 ^ 47)"
  by code_simp

lemma record_20_11_counts:
  "distinct (obj_keys record_20_11)"
  "length record_20_11 = 20"
  "length (filter (\<lambda>kv. isFilled (snd kv)) record_20_11) = 11"
  by (simp_all add: record_20_11_def obj_keys_def isFilled_def)

text \<open>
  Claim C9, as amended.  \<^verbatim>\<open>getCompletenessReport\<close> leaves the aggregator as it was and a
  second call returns the same report; every top-level field of the record counts once,
  and it counts as filled exactly when it is a non-empty array, an object with a key, or
  a scalar other than \<^verbatim>\<open>null\<close>, \<^verbatim>\<open>undefined\<close> and the empty string; the percentage is
  \<open>filledFields / totalFields * 100\<close> in binary64 arithmetic.  For 11 filled fields of
  20 this is not 55 but the next binary64 number above it, \<open>55 + 2\<^sup>-\<^sup>4\<^sup>7\<close>, which
  JavaScript prints as 55.00000000000001 and \<^verbatim>\<open>toFixed(1)\<close> shows as 55.0.
\<close>

theorem completeness_report_properties:
  assumes "distinct (obj_keys (cardData a))"
  shows "snd (getCompletenessReport a) = a
    \<and> getCompletenessReport (snd (getCompletenessReport a)) = getCompletenessReport a
    \<and> totalFields (fst (getCompletenessReport a)) = length (cardData a)
    \<and> filledFields (fst (getCompletenessReport a))
        = length (filter (\<lambda>kv. isFilled (snd kv)) (cardData a))
    \<and> (\<forall>v. isFilled v =
          (case v of
             JArr xs \<Rightarrow> xs \<noteq> []
           | JObj kvs \<Rightarrow> kvs \<noteq> []
           | JStr s \<Rightarrow> s \<noteq> []
           | JNull \<Rightarrow> False
           | JUndefined \<Rightarrow> False
           | JBool b \<Rightarrow> True
           | JNum n \<Rightarrow> True))
    \<and> completenessPercentage (fst (getCompletenessReport a))
        = js_times_100 (js_div (filledFields (fst (getCompletenessReport a)))
                               (totalFields (fst (getCompletenessReport a))))
    \<and> (totalFields (fst (getCompletenessReport a)) = 20
         \<and> filledFields (fst (getCompletenessReport a)) = 11
        \<longrightarrow> completenessPercentage (fst (getCompletenessReport a)) = Num (55 + 1 / 2 ^ 47)
            \<and> \<bar>(55 + 1 / 2 ^ 47) - (55 :: rat)\<bar> < 1 / 10 ^ 14)"
proof -
  have 1: "snd (getCompletenessReport a) = a"
    by (simp add: getCompletenessReport_def Let_def)
  have 2: "\<bar>(55 + 1 / 2 ^ 47) - (55 :: rat)\<bar> < 1 / 10 ^ 14"
    by simp
  show ?thesis
    using 1 2 report_counts[OF assms] isFilled_cases report_percentage[of a]
      percentage_11_of_20
    by (simp del: of_nat_numeral)
qed

theorem completeness_report_properties_witness:
  "distinct (obj_keys (cardData aggregator_20_11))
   \<and> totalFields (fst (getCompletenessReport aggregator_20_11)) = 20
   \<and> filledFields (fst (getCompletenessReport aggregator_20_11)) = 11
   \<and> completenessPercentage (fst (getCompletenessReport aggregator_20_11))
       = Num (55 + 1 / 2 ^ 47)
   \<and> snd (getCompletenessReport aggregator_20_11) = aggregator_20_11"
proof -
  have d: "distinct (obj_keys (cardData aggregator_20_11))"
    by (simp add: aggregator_20_11_def record_20_11_counts)
  note p = completeness_report_properties[OF d]
  note s = p[THEN conjunct1]
  note t = p[THEN conjunct2, THEN conjunct2, THEN conjunct1]
  note f = p[THEN conjunct2, THEN conjunct2, THEN conjunct2, THEN conjunct1]
  note i = p[THEN conjunct2, THEN conjunct2, THEN conjunct2, THEN conjunct2, THEN conjunct2,
             THEN conjunct2]
  have t20: "totalFields (fst (getCompletenessReport aggregator_20_11)) = 20"
    using t by (simp add: aggregator_20_11_def record_20_11_counts)
  have f11: "filledFields (fst (getCompletenessReport aggregator_20_11)) = 11"
    using f by (simp add: aggregator_20_11_def record_20_11_counts)
  from i t20 f11
  have "completenessPercentage (fst (getCompletenessReport aggregator_20_11))
          = Num (55 + 1 / 2 ^ 47)"
    by blast
  with d t20 f11 s show ?thesis by blast
qed

text \<open>
  Claim C9 as stated gives 55.0 for a record of 20 fields with 11 filled.  The report's
  number is not the number 55.
\<close>

theorem completeness_20_11_not_55:
  "totalFields (fst (getCompletenessReport aggregator_20_11)) = 20
   \<and> filledFields (fst (getCompletenessReport aggregator_20_11)) = 11
   \<and> completenessPercentage (fst (getCompletenessReport aggregator_20_11)) \<noteq> Num 55"
proof -
  have d: "distinct (obj_keys (cardData aggregator_20_11))"
    by (simp add: aggregator_20_11_def record_20_11_counts)
  have t: "totalFields (fst (getCompletenessReport aggregator_20_11)) = 20"
    and f: "filledFields (fst (getCompletenessReport aggregator_20_11)) = 11"
    using report_counts[OF d] by (simp_all add: aggregator_20_11_def record_20_11_counts)
  have "completenessPercentage (fst (getCompletenessReport aggregator_20_11))
          = Num (55 + 1 / 2 ^ 47)"
    using report_percentage[of aggregator_20_11] percentage_11_of_20 by (simp add: t f)
  then show ?thesis using t f by simp
qed

section \<open>The relevance score\<close>

text \<open>
  Claim C10.  Whatever the text and the URL (and whatever \<^verbatim>\<open>toLowerCase\<close> does to them),
  the relevance score is an integer that is not negative: the penalties for off-topic
  keywords can make the sum negative, and the final \<^verbatim>\<open>Math.max(0, score)\<close> lifts it to 0.
  The gate of \<^verbatim>\<open>crawlPage\<close>, \<open>score < 3\<close>, therefore rejects exactly the scores 0, 1 and 2.
\<close>

theorem relevance_score_not_negative:
  "0 \<le> calculateContentRelevance toLowerCase fullText url
   \<and> calculateContentRelevance toLowerCase fullText url
       = (if raw_relevance toLowerCase fullText url < 0 then 0
          else raw_relevance toLowerCase fullText url)
   \<and> rejected_by_relevance toLowerCase fullText url
       = (calculateContentRelevance toLowerCase fullText url \<in> {0, 1, 2})"
  by (auto simp: calculateContentRelevance_def rejected_by_relevance_def)

section \<open>The rate limiter: a burst on a new limiter\<close>

lemmas limiter_simps =
  waitForRateLimit_def getLimiter_def newTokenBucket_def tryTake_def fillBucket_def
  getWaitTime_capped_def delay_def timer_ms_def make_options_def newDomainRateLimiter_def
  rate2_burst5_def rate2_burst5_no_spacing_def Let_def

text \<open>
  The numbers of the runs below (token counts 0 to 5, the elapsed half second, the delay of
  500 ms) are binary64 numbers, and so are their sums and products: rounding changes
  nothing there.
\<close>

lemma limiter_values_exact:
  "fl64 (1 / 2) = 1 / 2" "fl64 ((1 / 2) * 2) = 1" "fl64 (4 + 1) = 5" "fl64 (0 + 1) = 1"
  "fl64 (1 * 1000 / 2) = 500" "fl64 (500 / 1000) = 1 / 2"
  by code_simp+

text \<open>
  Claim C2, as amended.  On a new limiter with rate 2 per second and burst 5 whose minimum
  spacing is set to zero, six \<^verbatim>\<open>waitForRateLimit\<close> calls for one domain issued at the same
  instant \<open>t0\<close> behave as the claim says: the first five complete at \<open>t0\<close>, the sixth at
  \<open>t0 + 500\<close>.  With the default minimum spacing of 500 ms, which applies when only the
  rate and the burst are configured, the first call completes at \<open>t0\<close> and the second,
  issued at the same instant, at \<open>t0 + 500\<close>.  The loop takes at most two rounds, so any
  fuel of two or more gives the result.
\<close>

theorem burst_then_wait:
  assumes "500 \<le> t0"
  shows "acquire_times (Suc (Suc fuel)) domain 6
           (newDomainRateLimiter rate2_burst5_no_spacing t0)
         = Some [t0, t0, t0, t0, t0, t0 + 500]
       \<and> acquire_times (Suc (Suc fuel)) domain 2 (newDomainRateLimiter rate2_burst5 t0)
         = Some [t0, t0 + 500]"
  using assms by (simp add: limiter_simps numeral_nat)

theorem burst_then_wait_witness:
  "(500 :: rat) \<le> 1000000
   \<and> acquire_times 2 (js ''hdfcbank.com'') 6
        (newDomainRateLimiter rate2_burst5_no_spacing 1000000)
       = Some [1000000, 1000000, 1000000, 1000000, 1000000, 1000500]
   \<and> acquire_times 2 (js ''hdfcbank.com'') 2 (newDomainRateLimiter rate2_burst5 1000000)
       = Some [1000000, 1000500]"
proof -
  have h: "(500 :: rat) \<le> 1000000" by simp
  from burst_then_wait[OF h, of 0 "js ''hdfcbank.com''"] h show ?thesis
    by (simp add: numeral_2_eq_2)
qed

text \<open>
  Claim C2 as stated: with rate 2 and burst 5 configured, the second of the calls issued
  at the same instant is already delayed, by the minimum spacing of 500 ms.
\<close>

theorem second_acquire_is_spaced:
  "acquire_times 2 (js ''hdfcbank.com'') 2 (newDomainRateLimiter rate2_burst5 1000000)
     = Some [1000000, 1000500]
   \<and> minDelayMs (make_options rate2_burst5) = 500"
  by (simp add: limiter_simps numeral_nat)

section \<open>Link triage: ignored links\<close>

lemma process_link_not_ignored:
  "process_link P S d l = Some pl \<Longrightarrow> \<not> isIgnored S (link_href pl)"
  by (auto simp: process_link_def Let_def split: option.splits if_splits link.splits)

lemma set_map_filter: "set (List.map_filter f xs) = {y. \<exists>x \<in> set xs. f x = Some y}"
  by (induction xs) (auto simp: List.map_filter_def)

lemma foldl_update_values:
  "set (map snd (foldl (\<lambda>m l. AList.update (link_href l) l m) m0 ls))
     \<subseteq> set (map snd m0) \<union> set ls"
proof (induction ls arbitrary: m0)
  case Nil
  then show ?case by simp
next
  case (Cons l ls)
  have "set (map snd (AList.update (link_href l) l m0)) \<subseteq> set (map snd m0) \<union> {l}"
    by (induction m0) auto
  with Cons[of "AList.update (link_href l) l m0"] show ?case by auto
qed

lemma uniqueLinks_subset: "set (uniqueLinks ls) \<subseteq> set ls"
  using foldl_update_values[of "[]" ls] by (simp add: uniqueLinks_def)

lemma processLinks_not_ignored:
  assumes "pl \<in> set (internalLinks (processLinks P S links d))
           \<or> pl \<in> set (pdfLinks (processLinks P S links d))"
  shows "\<not> isIgnored S (link_href pl)"
proof -
  from assms have "pl \<in> set (uniqueLinks (List.map_filter (process_link P S d) links))"
    by (auto simp: processLinks_def Let_def)
  with uniqueLinks_subset have "pl \<in> set (List.map_filter (process_link P S d) links)"
    by blast
  then obtain l where "process_link P S d l = Some pl"
    by (auto simp: set_map_filter)
  then show ?thesis by (rule process_link_not_ignored)
qed

lemmas clean_simps =
  cleanUrl_def has_template_marker_def repair_def strip_trailing_slash_def trim_def is_space_def

lemmas plain_simps =
  plain_platform_def parse_plain_def plain_path_def plain_host_char_def plain_path_char_def
  plain_query_char_def is_alpha_def is_digit_def ascii_toLowerCase_def
  protocol_def hostname_def pathname_def href_of_def clear_hash_def Let_def

lemmas settings_simps =
  the_settings_def settings_ignorePatterns_def settings_priorityPatterns_def
  settings_categories_def isIgnored_def getPriorityScore_def categorizeLink_def
  fold_case_def canonicalize_def is_line_terminator_def endsWith_def

lemmas link_simps =
  process_link_def absoluteUrl_def isPDFLink_def clean_simps plain_simps endsWith_def

lemma triage_login_benefits:
  "test (Lit False (js ''/login'')) (js ''https://hdfcbank.com/login/credit-card-benefits'')"
  "getPriorityScore the_settings (js ''https://hdfcbank.com/login/credit-card-benefits'') = 32"
  by (simp_all add: settings_simps js_def)

lemma link_login_benefits:
  "process_link plain_platform the_settings (js ''hdfcbank.com'')
     (LinkString (js ''/login/credit-card-benefits'')) = None"
  by (simp add: link_simps settings_simps js_def)

lemma triage_rewards:
  "\<not> isIgnored the_settings (js ''https://hdfcbank.com/rewards'')"
  "getPriorityScore the_settings (js ''https://hdfcbank.com/rewards'') = 10"
  "categorizeLink the_settings (js ''https://hdfcbank.com/rewards'') = js ''rewards''"
  by (simp_all add: settings_simps js_def)

lemma link_rewards:
  "process_link plain_platform the_settings (js ''hdfcbank.com'') (LinkString (js ''/rewards''))
   = Some (page_link ''https://hdfcbank.com/rewards'' 10 ''rewards'')"
  using triage_rewards by (simp add: link_simps page_link_def js_def)

lemma uniqueLinks_simps:
  "uniqueLinks [] = []"
  "uniqueLinks [a] = [a]"
  by (simp_all add: uniqueLinks_def)

lemma ignored_links_result:
  "processLinks plain_platform the_settings ignored_links (js ''hdfcbank.com'')
   = \<lparr>internalLinks = [page_link ''https://hdfcbank.com/rewards'' 10 ''rewards''],
      pdfLinks = []\<rparr>"
  by (simp add: processLinks_def ignored_links_def link_login_benefits link_rewards
        uniqueLinks_simps page_link_def)

text \<open>
  Claim C8.  Whatever the links, the base domain, the pattern tables and the URL parser: a
  URL that matches one of the configured ignore patterns is the \<^verbatim>\<open>href\<close> of no link in
  the internal list and of no link in the PDF list that \<^verbatim>\<open>processLinks\<close> and
  \<^verbatim>\<open>handleLinks\<close> return, whatever its priority score is.  (The test for the ignore
  patterns comes first in the loop body and leaves it by \<^verbatim>\<open>continue\<close>; the score is computed
  after it.)
\<close>

theorem ignored_link_excluded:
  assumes "p \<in> set (ignorePatterns S)" and "test p u"
  shows "u \<notin> link_href ` set (internalLinks (processLinks P S links d))
       \<and> u \<notin> link_href ` set (pdfLinks (processLinks P S links d))
       \<and> u \<notin> link_href ` set (internalLinks (handleLinks P S links d))
       \<and> u \<notin> link_href ` set (pdfLinks (handleLinks P S links d))"
proof -
  from assms have ign: "isIgnored S u" by (auto simp: isIgnored_def)
  have 1: "u \<notin> link_href ` set (internalLinks (processLinks P S links d))"
    using processLinks_not_ignored[of _ P S links d] ign by blast
  have 2: "u \<notin> link_href ` set (pdfLinks (processLinks P S links d))"
    using processLinks_not_ignored[of _ P S links d] ign by blast
  from 1 2 show ?thesis by (simp add: handleLinks_def)
qed

text \<open>
  The link \<^verbatim>\<open>/login/credit-card-benefits\<close> matches the ignore pattern \<^verbatim>\<open>/\/login/\<close> and the
  priority patterns \<^verbatim>\<open>/credit.*card/i\<close> and \<^verbatim>\<open>/benefits/i\<close> (score 32); of the two links
  only \<^verbatim>\<open>/rewards\<close> (score 10) is returned.
\<close>

theorem ignored_link_excluded_witness:
  "Lit False (js ''/login'') \<in> set (ignorePatterns the_settings)
   \<and> test (Lit False (js ''/login'')) (js ''https://hdfcbank.com/login/credit-card-benefits'')
   \<and> getPriorityScore the_settings (js ''https://hdfcbank.com/login/credit-card-benefits'')
       = 32
   \<and> js ''https://hdfcbank.com/login/credit-card-benefits''
       \<notin> link_href ` set (internalLinks
             (processLinks plain_platform the_settings ignored_links (js ''hdfcbank.com'')))
   \<and> js ''https://hdfcbank.com/login/credit-card-benefits''
       \<notin> link_href ` set (pdfLinks
             (processLinks plain_platform the_settings ignored_links (js ''hdfcbank.com'')))
   \<and> map link_href (internalLinks
         (processLinks plain_platform the_settings ignored_links (js ''hdfcbank.com'')))
       = [js ''https://hdfcbank.com/rewards'']"
proof -
  have m: "Lit False (js ''/login'') \<in> set (ignorePatterns the_settings)"
    by (simp add: the_settings_def settings_ignorePatterns_def)
  note t = triage_login_benefits(1)
  from ignored_link_excluded[OF m t, of plain_platform ignored_links "js ''hdfcbank.com''"]
  have "js ''https://hdfcbank.com/login/credit-card-benefits''
          \<notin> link_href ` set (internalLinks
                (processLinks plain_platform the_settings ignored_links (js ''hdfcbank.com'')))"
    and "js ''https://hdfcbank.com/login/credit-card-benefits''
          \<notin> link_href ` set (pdfLinks
                (processLinks plain_platform the_settings ignored_links (js ''hdfcbank.com'')))"
    by blast+
  moreover have "map link_href (internalLinks
         (processLinks plain_platform the_settings ignored_links (js ''hdfcbank.com'')))
       = [js ''https://hdfcbank.com/rewards'']"
    by (simp add: ignored_links_result page_link_def)
  ultimately show ?thesis using m t triage_login_benefits(2) by blast
qed

section \<open>The orchestrator: which links are fetched\<close>

text \<open>The ten links of the scenario, one by one.\<close>

lemma triage_cards:
  "\<not> isIgnored the_settings (js ''https://hdfcbank.com/personal/pay/cards'')"
  "getPriorityScore the_settings (js ''https://hdfcbank.com/personal/pay/cards'') = 0"
  "categorizeLink the_settings (js ''https://hdfcbank.com/personal/pay/cards'') = js ''general''"
  by (simp_all add: settings_simps js_def)

lemma link_cards:
  "process_link plain_platform the_settings (js ''hdfcbank.com'')
     (LinkString (js ''/personal/pay/cards''))
   = Some (page_link ''https://hdfcbank.com/personal/pay/cards'' 0 ''general'')"
  using triage_cards by (simp add: link_simps page_link_def js_def)

lemma link_login:
  "process_link plain_platform the_settings (js ''hdfcbank.com'') (LinkString (js ''/login''))
   = None"
  by (simp add: link_simps settings_simps js_def)

lemma triage_apply:
  "\<not> isIgnored the_settings (js ''https://hdfcbank.com/apply-online'')"
  "getPriorityScore the_settings (js ''https://hdfcbank.com/apply-online'') = 7"
  "categorizeLink the_settings (js ''https://hdfcbank.com/apply-online'') = js ''application''"
  by (simp_all add: settings_simps js_def)

lemma link_apply:
  "process_link plain_platform the_settings (js ''hdfcbank.com'')
     (LinkString (js ''/apply-online''))
   = Some (page_link ''https://hdfcbank.com/apply-online'' 7 ''application'')"
  using triage_apply by (simp add: link_simps page_link_def js_def)

lemma link_careers:
  "process_link plain_platform the_settings (js ''hdfcbank.com'') (LinkString (js ''/careers''))
   = None"
  by (simp add: link_simps settings_simps js_def)

lemma link_about:
  "process_link plain_platform the_settings (js ''hdfcbank.com'') (LinkString (js ''/about-us''))
   = None"
  by (simp add: link_simps settings_simps js_def)

lemma triage_benefits:
  "\<not> isIgnored the_settings (js ''https://hdfcbank.com/benefits'')"
  "getPriorityScore the_settings (js ''https://hdfcbank.com/benefits'') = 12"
  "categorizeLink the_settings (js ''https://hdfcbank.com/benefits'') = js ''benefits''"
  by (simp_all add: settings_simps js_def)

lemma link_benefits:
  "process_link plain_platform the_settings (js ''hdfcbank.com'')
     (LinkString (js ''/benefits''))
   = Some (page_link ''https://hdfcbank.com/benefits'' 12 ''benefits'')"
  using triage_benefits by (simp add: link_simps page_link_def js_def)

lemma triage_regalia:
  "\<not> isIgnored the_settings (js ''https://hdfcbank.com/regalia-gold-credit-card'')"
  "getPriorityScore the_settings (js ''https://hdfcbank.com/regalia-gold-credit-card'') = 45"
  "categorizeLink the_settings (js ''https://hdfcbank.com/regalia-gold-credit-card'') = js ''general''"
  by (simp_all add: settings_simps js_def)

lemma link_regalia:
  "process_link plain_platform the_settings (js ''hdfcbank.com'')
     (LinkString (js ''/regalia-gold-credit-card''))
   = Some (page_link ''https://hdfcbank.com/regalia-gold-credit-card'' 45 ''general'')"
  using triage_regalia by (simp add: link_simps page_link_def js_def)

lemma triage_brochure:
  "\<not> isIgnored the_settings (js ''https://hdfcbank.com/docs/brochure.pdf'')"
  "getPriorityScore the_settings (js ''https://hdfcbank.com/docs/brochure.pdf'') = 12"
  "categorizeLink the_settings (js ''https://hdfcbank.com/docs/brochure.pdf'') = js ''pdf''"
  by (simp_all add: settings_simps js_def)

lemma link_brochure:
  "process_link plain_platform the_settings (js ''hdfcbank.com'')
     (LinkString (js ''/docs/brochure.pdf''))
   = Some (pdf_link ''https://hdfcbank.com/docs/brochure.pdf'' 12 ''pdf'')"
  using triage_brochure by (simp add: link_simps pdf_link_def js_def)

lemma triage_tnc:
  "\<not> isIgnored the_settings (js ''https://hdfcbank.com/docs/tnc.pdf'')"
  "getPriorityScore the_settings (js ''https://hdfcbank.com/docs/tnc.pdf'') = 27"
  "categorizeLink the_settings (js ''https://hdfcbank.com/docs/tnc.pdf'') = js ''terms''"
  by (simp_all add: settings_simps js_def)

lemma link_tnc:
  "process_link plain_platform the_settings (js ''hdfcbank.com'')
     (LinkString (js ''/docs/tnc.pdf''))
   = Some (pdf_link ''https://hdfcbank.com/docs/tnc.pdf'' 27 ''terms'')"
  using triage_tnc by (simp add: link_simps pdf_link_def js_def)

lemma seed_links_processed:
  "List.map_filter (process_link plain_platform the_settings (js ''hdfcbank.com'')) seed_links
   = [page_link ''https://hdfcbank.com/personal/pay/cards'' 0 ''general'',
      page_link ''https://hdfcbank.com/apply-online'' 7 ''application'',
      page_link ''https://hdfcbank.com/rewards'' 10 ''rewards'',
      page_link ''https://hdfcbank.com/benefits'' 12 ''benefits'',
      page_link ''https://hdfcbank.com/regalia-gold-credit-card'' 45 ''general'',
      pdf_link ''https://hdfcbank.com/docs/brochure.pdf'' 12 ''pdf'',
      pdf_link ''https://hdfcbank.com/docs/tnc.pdf'' 27 ''terms'']"
  by (simp add: seed_links_def link_cards link_login link_apply link_careers link_rewards
        link_about link_benefits link_regalia link_brochure link_tnc)

lemma seed_links_result:
  "handleLinks plain_platform the_settings seed_links (js ''hdfcbank.com'')
   = \<lparr>internalLinks =
        [page_link ''https://hdfcbank.com/personal/pay/cards'' 0 ''general'',
         page_link ''https://hdfcbank.com/apply-online'' 7 ''application'',
         page_link ''https://hdfcbank.com/rewards'' 10 ''rewards'',
         page_link ''https://hdfcbank.com/benefits'' 12 ''benefits'',
         page_link ''https://hdfcbank.com/regalia-gold-credit-card'' 45 ''general''],
      pdfLinks =
        [pdf_link ''https://hdfcbank.com/docs/brochure.pdf'' 12 ''pdf'',
         pdf_link ''https://hdfcbank.com/docs/tnc.pdf'' 27 ''terms'']\<rparr>"
  by (simp add: handleLinks_def processLinks_def seed_links_processed uniqueLinks_def
        page_link_def pdf_link_def)

text \<open>
  Claim C3, on the code.  In the scenario of the specification (five kept page links, two
  PDF links, \<open>maxPages = 3\<close>, \<open>maxPDFs = 1\<close>) the orchestrator fetches five resources, the
  seed included, but the three pages and the PDF are the first of each list in the order
  the links stand in the seed page: the pages with priority scores 0, 7 and 10 and the
  PDF with score 12.  The pages with the scores 45 and 12 and the PDF with score 27 are
  not fetched.  \<^verbatim>\<open>processLinks\<close> computes the score of each link and nothing sorts by it.
\<close>

theorem scenario_fetches_first_seen:
  "map priority (internalLinks
      (handleLinks plain_platform the_settings seed_links (baseDomain scenario)))
     = [0, 7, 10, 12, 45]
   \<and> map priority (pdfLinks
      (handleLinks plain_platform the_settings seed_links (baseDomain scenario)))
     = [12, 27]
   \<and> map priority (fetched plain_platform the_settings scenario seed_links) = [0, 7, 10, 12]
   \<and> fetch_results plain_platform the_settings scenario seed_links
     = [js ''https://hdfcbank.com/regalia-gold'',
        js ''https://hdfcbank.com/personal/pay/cards'',
        js ''https://hdfcbank.com/apply-online'',
        js ''https://hdfcbank.com/rewards'',
        js ''https://hdfcbank.com/docs/brochure.pdf'']
   \<and> length (fetch_results plain_platform the_settings scenario seed_links) = 5"
  by (simp add: fetch_results_def fetched_def scenario_def seed_links_result pagesToCrawl_def
        pdfsToProcess_def slice0_def page_link_def pdf_link_def)

section \<open>URL normalisation: what is rejected\<close>















lemmas valid_simps =
  isValidUrl_def corruptionPatterns_def corruption_signatures_def script_schemes_def
  includes_ci_def startsWith_ci_def canonicalize_def














section \<open>URL normalisation: applied twice\<close>

lemma triage_CCard:
  "\<not> isIgnored the_settings (js ''https://hdfcbank.com/CCard'')"
  "getPriorityScore the_settings (js ''https://hdfcbank.com/CCard'') = 0"
  "categorizeLink the_settings (js ''https://hdfcbank.com/CCard'') = js ''general''"
  by (simp_all add: settings_simps js_def)

lemma link_CCCard:
  "process_link plain_platform the_settings (js ''hdfcbank.com'') (LinkString (js ''/CCCard''))
   = Some (page_link ''https://hdfcbank.com/CCard'' 0 ''general'')"
  using triage_CCard by (simp add: link_simps page_link_def js_def)

lemma normalize_CCCard:
  "normalizeUrl plain_platform (js ''https://hdfcbank.com/CCCard'')
     = Some (js ''https://hdfcbank.com/CCard'')"
  "normalizeUrl plain_platform (js ''https://hdfcbank.com/CCard'')
     = Some (js ''https://hdfcbank.com/Card'')"
  by (simp_all add: normalizeUrl_def clean_simps valid_simps plain_simps js_def)

text \<open>
  Claim C4, on the code.  \<^verbatim>\<open>normalizeUrl\<close> of \<^verbatim>\<open>https://hdfcbank.com/CCCard\<close> is
  \<^verbatim>\<open>https://hdfcbank.com/CCard\<close>, and \<^verbatim>\<open>normalizeUrl\<close> of that is \<^verbatim>\<open>https://hdfcbank.com/Card\<close>:
  the repair of \<^verbatim>\<open>CCard\<close> is applied once from left to right and leaves a text it would
  repair again.  The program itself normalises twice: \<^verbatim>\<open>processLinks\<close> cleans the link to
  the first URL, under which the link is deduplicated and its source recorded, and
  \<^verbatim>\<open>crawlPage\<close> normalises that URL again and fetches the second.
\<close>

theorem normalizeUrl_twice_differs:
  "normalizeUrl plain_platform (js ''https://hdfcbank.com/CCCard'')
     = Some (js ''https://hdfcbank.com/CCard'')
   \<and> normalizeUrl plain_platform (js ''https://hdfcbank.com/CCard'')
     = Some (js ''https://hdfcbank.com/Card'')
   \<and> map_option link_href
       (process_link plain_platform the_settings (js ''hdfcbank.com'')
          (LinkString (js ''/CCCard'')))
     = Some (js ''https://hdfcbank.com/CCard'')
   \<and> crawlPage_target plain_platform (js ''https://hdfcbank.com/CCard'')
     = js ''https://hdfcbank.com/Card''"
  by (simp add: normalize_CCCard link_CCCard crawlPage_target_def page_link_def)

end
